theory Spec2Isabelle
  imports Complex_Main "HOL-Library.AList"
begin

section \<open>JavaScript values and the browser platform\<close>

text \<open>
  The DeepShield front end is plain browser JavaScript.  Strings are lists of code
  units; one \<^typ>\<open>char\<close> stands for one code unit, so \<^const>\<open>length\<close> is the
  \<^verbatim>\<open>.length\<close> of the source (the model ranges over code units below 256).
  Numbers are reals (\<^verbatim>\<open>NaN\<close> appears only as the failure of a conversion),
  \<^verbatim>\<open>null\<close> and \<^verbatim>\<open>undefined\<close> are values of their own, and an object
  is the list of its own properties.  These values are finite trees without
  \<^verbatim>\<open>BigInt\<close>: the values on which \<^verbatim>\<open>JSON.stringify\<close> returns.
\<close>

datatype js_value =
    JUndefined
  | JNull
  | JBool bool
  | JNum real
  | JStr string
  | JObj "(string \<times> js_value) list"
  | JArr "js_value list"

text \<open>Truthiness, as \<^verbatim>\<open>if (x)\<close>, \<^verbatim>\<open>!x\<close>, \<^verbatim>\<open>x && y\<close> and \<^verbatim>\<open>x || y\<close> test it.\<close>

fun truthy :: "js_value \<Rightarrow> bool" where
  "truthy JUndefined = False"
| "truthy JNull = False"
| "truthy (JBool b) = b"
| "truthy (JNum r) = (r \<noteq> 0)"
| "truthy (JStr s) = (s \<noteq> [])"
| "truthy (JObj ps) = True"
| "truthy (JArr xs) = True"

definition js_or :: "js_value \<Rightarrow> js_value \<Rightarrow> js_value" where
  "js_or a b = (if truthy a then a else b)"

text \<open>What the source can throw: its own \<^verbatim>\<open>APIError\<close>, or anything else.\<close>

datatype js_exn =
    TypeError
  | SyntaxError
  | InvalidCharacterError
  | FetchFailed
  | BodyReadFailed
  | PlainError string

text \<open>
  \<^verbatim>\<open>class APIError extends Error\<close> (api.js): the message, the HTTP status
  (default 0) and the data, which is the response body or, in the catch branch of
  \<^verbatim>\<open>request\<close>, the error that was caught.
\<close>

datatype err_data = Payload js_value | Caught js_exn

record api_error =
  message :: string
  status :: int
  data :: err_data

datatype thrown = APIError api_error | Other js_exn

text \<open>
  Reading a named property \<^verbatim>\<open>v.name\<close>: a \<^verbatim>\<open>TypeError\<close> on
  \<^verbatim>\<open>null\<close> and \<^verbatim>\<open>undefined\<close>, the own property of an object,
  \<^verbatim>\<open>undefined\<close> otherwise (the names read by the source, such as
  \<^verbatim>\<open>detail\<close>, \<^verbatim>\<open>message\<close>, \<^verbatim>\<open>exp\<close>, \<^verbatim>\<open>access_token\<close>,
  \<^verbatim>\<open>user\<close>, \<^verbatim>\<open>otp\<close>, \<^verbatim>\<open>email\<close>, \<^verbatim>\<open>session_token\<close>,
  \<^verbatim>\<open>statistics\<close> and \<^verbatim>\<open>detection_result\<close>, are no built-in property of a
  primitive or an array).
\<close>

fun get_prop :: "js_value \<Rightarrow> string \<Rightarrow> js_exn + js_value" where
  "get_prop JUndefined k = Inl TypeError"
| "get_prop JNull k = Inl TypeError"
| "get_prop (JObj ps) k = Inr (case map_of ps k of None \<Rightarrow> JUndefined | Some v \<Rightarrow> v)"
| "get_prop v k = Inr JUndefined"

text \<open>
  The built-ins the source calls and does not define are parameters of the model:
  \<^verbatim>\<open>atob\<close> (\<open>None\<close>: it throws), \<^verbatim>\<open>JSON.parse\<close> (\<open>None\<close>: it throws),
  \<^verbatim>\<open>JSON.stringify\<close>, the conversion of a value that is not a string to a
  string (template literals, \<^verbatim>\<open>setItem\<close>, \<^verbatim>\<open>FormData.append\<close>, the
  \<^verbatim>\<open>Error\<close> constructor), the conversion of a string, object or array to a
  number (\<open>None\<close>: \<^verbatim>\<open>NaN\<close>), the message of a built-in error,
  \<^verbatim>\<open>URLSearchParams.toString\<close>, \<^verbatim>\<open>toISOString\<close> of the date at a given
  time, \<^verbatim>\<open>URL.createObjectURL\<close>, and \<^verbatim>\<open>Date.now() / 1000\<close>, the double
  that the division of the clock's milliseconds gives.  The document is a
  parameter too, as far as the code depends on it: whether the three display
  functions of the dashboard (\<^verbatim>\<open>updateDashboardStats\<close>,
  \<^verbatim>\<open>displayMediaUploads\<close>, \<^verbatim>\<open>displayComplaints\<close>), which write to the
  document only, return on the data they are given.
\<close>

record file_desc =
  file_name :: string
  file_size :: nat
  file_type :: string

record platform =
  atob :: "string \<Rightarrow> string option"
  JSON_parse :: "string \<Rightarrow> js_value option"
  JSON_stringify :: "js_value \<Rightarrow> string"
  ToString_other :: "js_value \<Rightarrow> string"
  ToNumber_other :: "js_value \<Rightarrow> real option"
  exn_message :: "js_exn \<Rightarrow> string"
  URLSearchParams_toString :: "(string \<times> string) list \<Rightarrow> string"
  toISOString :: "int \<Rightarrow> string"
  createObjectURL :: "file_desc \<Rightarrow> string"
  now_seconds :: "int \<Rightarrow> real"
  dashboard_renders :: "js_value \<Rightarrow> bool"

definition to_str :: "platform \<Rightarrow> js_value \<Rightarrow> string" where
  "to_str P v = (case v of JStr s \<Rightarrow> s | _ \<Rightarrow> ToString_other P v)"

text \<open>\<^verbatim>\<open>ToNumber\<close> on the primitives is fixed by the language; \<open>None\<close> is \<^verbatim>\<open>NaN\<close>.\<close>

fun ToNumber :: "platform \<Rightarrow> js_value \<Rightarrow> real option" where
  "ToNumber P JUndefined = None"
| "ToNumber P JNull = Some 0"
| "ToNumber P (JBool b) = Some (if b then 1 else 0)"
| "ToNumber P (JNum r) = Some r"
| "ToNumber P v = ToNumber_other P v"

text \<open>
  \<^verbatim>\<open>v < n\<close> for a number \<open>n\<close>: false as soon as \<open>v\<close> converts to
  \<^verbatim>\<open>NaN\<close>.  Both sides are doubles, compared as the reals they are.
\<close>

definition js_less_num :: "platform \<Rightarrow> js_value \<Rightarrow> real \<Rightarrow> bool" where
  "js_less_num P v n = (case ToNumber P v of None \<Rightarrow> False | Some x \<Rightarrow> x < n)"

section \<open>The error classification of the transport client (api.js)\<close>


definition isAuthError :: "api_error \<Rightarrow> bool" where
  "isAuthError e = (status e = 401 \<or> status e = 403)"




text \<open>
  The rule table as the specification words it, to be compared with the five
  predicates of the source: 0 is Network, 401 and 403 are Authentication, 400 and
  422 are Validation, 429 is RateLimited, 500 and above are ServerFault, and
  anything else is Unknown.
\<close>

datatype error_kind = Network | Authentication | Validation | RateLimited | ServerFault | Unknown


section \<open>Strings, storage and the network\<close>

text \<open>\<^verbatim>\<open>s.split(d)\<close> for a one-character separator: never the empty list.\<close>

fun split_on :: "char \<Rightarrow> string \<Rightarrow> string list" where
  "split_on d [] = [[]]"
| "split_on d (c # cs) =
     (if c = d then [] # split_on d cs
      else (case split_on d cs of [] \<Rightarrow> [[c]] | p # ps \<Rightarrow> (c # p) # ps))"

fun starts_with :: "string \<Rightarrow> string \<Rightarrow> bool" where
  "starts_with s [] = True"
| "starts_with [] (p # ps) = False"
| "starts_with (c # cs) (p # ps) = (c = p \<and> starts_with cs ps)"

text \<open>\<^verbatim>\<open>s.includes(p)\<close> on strings.\<close>

fun includes_str :: "string \<Rightarrow> string \<Rightarrow> bool" where
  "includes_str [] p = (p = [])"
| "includes_str (c # cs) p = (starts_with (c # cs) p \<or> includes_str cs p)"

text \<open>
  \<^verbatim>\<open>localStorage\<close> and \<^verbatim>\<open>sessionStorage\<close>: string keys, string values;
  \<^verbatim>\<open>getItem\<close> gives \<^verbatim>\<open>null\<close> for a missing key and \<^verbatim>\<open>setItem\<close> stores
  the string conversion of its argument.  The stores have room for every write.
\<close>

type_synonym storage = "string \<rightharpoonup> string"

definition getItem :: "storage \<Rightarrow> string \<Rightarrow> js_value" where
  "getItem st k = (case st k of None \<Rightarrow> JNull | Some s \<Rightarrow> JStr s)"

definition setItem :: "platform \<Rightarrow> storage \<Rightarrow> string \<Rightarrow> js_value \<Rightarrow> storage" where
  "setItem P st k v = st(k \<mapsto> to_str P v)"

definition removeItem :: "storage \<Rightarrow> string \<Rightarrow> storage" where
  "removeItem st k = st(k := None)"

definition TOKEN_KEY :: string where
  "TOKEN_KEY = ''deepshield_token''"

definition USER_KEY :: string where
  "USER_KEY = ''deepshield_user''"

definition ERRORS_NETWORK :: string where
  "ERRORS_NETWORK = ''Network error. Please check your connection and try again.''"

text \<open>
  A request as \<^verbatim>\<open>fetch(url, config)\<close> receives it, and what the network does
  with it: the promise rejects, or it resolves to a response.  Of a response the
  source reads the status (\<^verbatim>\<open>ok\<close> is a status from 200 to 299), the
  \<^verbatim>\<open>content-type\<close> header (\<open>None\<close>: \<^verbatim>\<open>null\<close>), and the body through
  \<^verbatim>\<open>json()\<close> or \<^verbatim>\<open>text()\<close> (\<open>None\<close>: the promise rejects).
\<close>

datatype form_value = FText string | FFile file_desc

datatype payload = NoBody | JsonBody string | FormData "(string \<times> form_value) list"

record http_request =
  req_url :: string
  req_method :: "string option"
  req_headers :: "(string \<times> string) list"
  req_payload :: payload

record http_response =
  resp_status :: int
  resp_content_type :: "string option"
  resp_json :: "js_value option"
  resp_text :: "string option"

datatype fetch_outcome = Rejects | Resolves http_response

type_synonym network = "http_request \<Rightarrow> fetch_outcome"

definition resp_ok :: "http_response \<Rightarrow> bool" where
  "resp_ok r = (200 \<le> resp_status r \<and> resp_status r \<le> 299)"

text \<open>
  What the code does to the outside, in the order it does it: network calls,
  notifications, navigation (at once or from a timer), dispatched events, and the
  two branches of \<^verbatim>\<open>updateUI\<close> and page rendering.
\<close>

datatype effect =
    Fetch http_request
  | Toast string string
  | Status string string
  | Navigate string
  | NavigateLater string
  | Dispatch string
  | UpdateUI bool
  | Render string

text \<open>
  The state the code keeps: the two browser stores, the token of the
  \<^verbatim>\<open>APIClient\<close> instance, the fields of the \<^verbatim>\<open>AuthManager\<close> instance
  (the refresh timer as "an interval is running"), the base URL and the path of
  the page, and the effects so far.
\<close>

record world =
  localStorage :: storage
  sessionStorage :: storage
  api_token :: js_value
  auth_token :: js_value
  currentUser :: js_value
  refreshTimer :: bool
  baseURL :: string
  pathname :: string
  trace :: "effect list"

definition emit :: "effect \<Rightarrow> world \<Rightarrow> world" where
  "emit e w = w\<lparr>trace := trace w @ [e]\<rparr>"

fun is_fetch :: "effect \<Rightarrow> bool" where
  "is_fetch (Fetch rq) = True"
| "is_fetch e = False"

definition fetches :: "world \<Rightarrow> effect list" where
  "fetches w = filter is_fetch (trace w)"

section \<open>The transport client (api.js)\<close>

text \<open>
  An options object as every call site of the repository passes it: each key
  present or not, and \<^verbatim>\<open>headers\<close>, when present, an object.  When
  \<^verbatim>\<open>options.headers\<close> is present it replaces the default headers, since
  \<^verbatim>\<open>...options\<close> is spread after \<^verbatim>\<open>headers\<close>.  On such options nothing
  before the \<^verbatim>\<open>try\<close> can throw; \<open>request_call\<close> below is \<^verbatim>\<open>request\<close>
  on whatever a caller may pass.
\<close>

record options =
  opt_method :: "string option"
  opt_headers :: "(string \<times> string) list option"
  opt_body :: payload

definition header_truthy :: "(string \<times> string) list \<Rightarrow> string \<Rightarrow> bool" where
  "header_truthy hs k = (case map_of hs k of None \<Rightarrow> False | Some v \<Rightarrow> v \<noteq> [])"

text \<open>Lines 15 to 27 of \<^verbatim>\<open>request\<close>: the URL, the config and the bearer header.\<close>

definition make_request :: "platform \<Rightarrow> string \<Rightarrow> options \<Rightarrow> world \<Rightarrow> http_request" where
  "make_request P endpoint opts w =
     (let hs = (case opt_headers opts of
                  None \<Rightarrow> [(''Content-Type'', ''application/json'')]
                | Some h \<Rightarrow> h);
          hs' = (if truthy (api_token w) \<and> \<not> header_truthy hs ''Authorization''
                 then AList.update ''Authorization'' (''Bearer '' @ to_str P (api_token w)) hs
                 else hs)
      in \<lparr>req_url = baseURL w @ endpoint, req_method = opt_method opts,
          req_headers = hs', req_payload = opt_body opts\<rparr>)"

text \<open>
  The body of the \<^verbatim>\<open>try\<close> (lines 30 to 46): whatever it throws, an
  \<^verbatim>\<open>APIError\<close> for a response that is not ok, or anything else.
\<close>

definition read_body :: "http_response \<Rightarrow> js_value option" where
  "read_body r =
     (if (case resp_content_type r of
            None \<Rightarrow> False
          | Some ct \<Rightarrow> ct \<noteq> [] \<and> includes_str ct ''application/json'')
      then resp_json r
      else map_option JStr (resp_text r))"

definition error_message :: "js_value \<Rightarrow> js_exn + js_value" where
  "error_message d =
     (case get_prop d ''detail'' of
        Inl x \<Rightarrow> Inl x
      | Inr det \<Rightarrow>
          if truthy det then Inr det
          else (case get_prop d ''message'' of
                  Inl x \<Rightarrow> Inl x
                | Inr m \<Rightarrow> Inr (js_or m (JStr ''Request failed''))))"

definition request_try :: "platform \<Rightarrow> network \<Rightarrow> http_request \<Rightarrow> thrown + js_value" where
  "request_try P net rq =
     (case net rq of
        Rejects \<Rightarrow> Inl (Other FetchFailed)
      | Resolves r \<Rightarrow>
          (case read_body r of
             None \<Rightarrow> Inl (Other BodyReadFailed)
           | Some d \<Rightarrow>
               if \<not> resp_ok r then
                 (case error_message d of
                    Inl x \<Rightarrow> Inl (Other x)
                  | Inr m \<Rightarrow>
                      Inl (APIError \<lparr>message = to_str P m, status = resp_status r,
                                     data = Payload d\<rparr>))
               else Inr d))"

text \<open>The \<^verbatim>\<open>catch\<close> (lines 47 to 55): an \<^verbatim>\<open>APIError\<close> goes on, anything else is wrapped.\<close>

definition request_catch :: "thrown \<Rightarrow> thrown" where
  "request_catch t =
     (case t of
        APIError e \<Rightarrow> APIError e
      | Other x \<Rightarrow> APIError \<lparr>message = ERRORS_NETWORK, status = 0, data = Caught x\<rparr>)"

definition request ::
  "platform \<Rightarrow> network \<Rightarrow> string \<Rightarrow> options \<Rightarrow> world \<Rightarrow> (thrown + js_value) \<times> world" where
  "request P net endpoint opts w =
     (let rq = make_request P endpoint opts w in
      (case request_try P net rq of
         Inl t \<Rightarrow> Inl (request_catch t)
       | Inr d \<Rightarrow> Inr d,
       emit (Fetch rq) w))"

text \<open>
  \<^verbatim>\<open>request(endpoint, options)\<close> on any argument: \<^verbatim>\<open>undefined\<close> (the
  default \<^verbatim>\<open>{}\<close> applies), \<^verbatim>\<open>null\<close>, or an object whose
  \<^verbatim>\<open>headers\<close> key is absent or holds \<^verbatim>\<open>undefined\<close>, \<^verbatim>\<open>null\<close> or an
  object.  Lines 16 to 27 run before the \<^verbatim>\<open>try\<close>: reading
  \<^verbatim>\<open>options.headers\<close> of \<^verbatim>\<open>null\<close> throws, and so does reading
  \<^verbatim>\<open>config.headers.Authorization\<close> when a token is held and the headers are
  \<^verbatim>\<open>null\<close> or \<^verbatim>\<open>undefined\<close>; neither is caught, and no fetch is made.
  Without a token the test short-circuits: headers that are \<^verbatim>\<open>undefined\<close>
  count as absent for \<^verbatim>\<open>fetch\<close>, and on headers that are \<^verbatim>\<open>null\<close>
  \<^verbatim>\<open>fetch\<close> rejects with a \<^verbatim>\<open>TypeError\<close> before anything is sent, inside
  the \<^verbatim>\<open>try\<close>.
\<close>

datatype headers_arg =
    HeadersAbsent
  | HeadersUndefined
  | HeadersNull
  | HeadersObject "(string \<times> string) list"

record options_object =
  arg_method :: "string option"
  arg_headers :: headers_arg
  arg_body :: payload

datatype options_arg = OptionsUndefined | OptionsNull | OptionsObject options_object

definition request_call ::
  "platform \<Rightarrow> network \<Rightarrow> string \<Rightarrow> options_arg \<Rightarrow> world \<Rightarrow> (thrown + js_value) \<times> world" where
  "request_call P net endpoint arg w =
     (case arg of
        OptionsUndefined \<Rightarrow>
          request P net endpoint \<lparr>opt_method = None, opt_headers = None, opt_body = NoBody\<rparr> w
      | OptionsNull \<Rightarrow> (Inl (Other TypeError), w)
      | OptionsObject obj \<Rightarrow>
          (case arg_headers obj of
             HeadersAbsent \<Rightarrow>
               request P net endpoint
                 \<lparr>opt_method = arg_method obj, opt_headers = None, opt_body = arg_body obj\<rparr> w
           | HeadersObject hs \<Rightarrow>
               request P net endpoint
                 \<lparr>opt_method = arg_method obj, opt_headers = Some hs, opt_body = arg_body obj\<rparr> w
           | HeadersUndefined \<Rightarrow>
               if truthy (api_token w) then (Inl (Other TypeError), w)
               else request P net endpoint
                      \<lparr>opt_method = arg_method obj, opt_headers = Some [],
                       opt_body = arg_body obj\<rparr> w
           | HeadersNull \<Rightarrow>
               if truthy (api_token w) then (Inl (Other TypeError), w)
               else (Inl (request_catch (Other TypeError)), w)))"

definition api_get ::
  "platform \<Rightarrow> network \<Rightarrow> string \<Rightarrow> (string \<times> string) list \<Rightarrow> world \<Rightarrow> (thrown + js_value) \<times> world" where
  "api_get P net endpoint params w =
     (let queryString = URLSearchParams_toString P params;
          url = (if queryString \<noteq> [] then endpoint @ ''?'' @ queryString else endpoint)
      in request P net url \<lparr>opt_method = Some ''GET'', opt_headers = None, opt_body = NoBody\<rparr> w)"

text \<open>
  \<^verbatim>\<open>post\<close> and \<^verbatim>\<open>put\<close> run \<^verbatim>\<open>JSON.stringify(data)\<close> before they call
  \<^verbatim>\<open>request\<close>, outside any \<^verbatim>\<open>try\<close>.  Their caller may pass a value on
  which it throws a \<^verbatim>\<open>TypeError\<close> (a cyclic structure, a \<^verbatim>\<open>BigInt\<close>
  inside); for \<^verbatim>\<open>undefined\<close> the default \<^verbatim>\<open>{}\<close> applies.
\<close>

datatype post_data = Serialisable js_value | Unserialisable

definition stringify_data :: "platform \<Rightarrow> post_data \<Rightarrow> js_exn + string" where
  "stringify_data P a =
     (case a of
        Unserialisable \<Rightarrow> Inl TypeError
      | Serialisable d \<Rightarrow> Inr (JSON_stringify P (if d = JUndefined then JObj [] else d)))"


definition api_put ::
  "platform \<Rightarrow> network \<Rightarrow> string \<Rightarrow> post_data \<Rightarrow> world \<Rightarrow> (thrown + js_value) \<times> world" where
  "api_put P net endpoint a w =
     (case stringify_data P a of
        Inl x \<Rightarrow> (Inl (Other x), w)
      | Inr s \<Rightarrow>
          request P net endpoint
            \<lparr>opt_method = Some ''PUT'', opt_headers = None, opt_body = JsonBody s\<rparr> w)"

definition api_postForm ::
  "platform \<Rightarrow> network \<Rightarrow> string \<Rightarrow> (string \<times> form_value) list \<Rightarrow> world \<Rightarrow> (thrown + js_value) \<times> world" where
  "api_postForm P net endpoint formData w =
     request P net endpoint
       \<lparr>opt_method = Some ''POST'', opt_headers = Some [], opt_body = FormData formData\<rparr> w"

definition setToken :: "platform \<Rightarrow> js_value \<Rightarrow> world \<Rightarrow> world" where
  "setToken P token w =
     (let w1 = w\<lparr>api_token := token\<rparr> in
      if truthy token
      then w1\<lparr>localStorage := setItem P (localStorage w1) TOKEN_KEY token\<rparr>
      else w1\<lparr>localStorage := removeItem (localStorage w1) TOKEN_KEY\<rparr>)"

definition clearAuth :: "world \<Rightarrow> world" where
  "clearAuth w =
     w\<lparr>api_token := JNull,
       localStorage := removeItem (removeItem (localStorage w) TOKEN_KEY) USER_KEY\<rparr>"

definition api_sendOTP :: "platform \<Rightarrow> network \<Rightarrow> string \<Rightarrow> world \<Rightarrow> (thrown + js_value) \<times> world" where
  "api_sendOTP P net email w =
     api_postForm P net ''/auth/send-otp'' [(''email'', FText email)] w"

definition api_verifyOTP ::
  "platform \<Rightarrow> network \<Rightarrow> string \<Rightarrow> string \<Rightarrow> world \<Rightarrow> (thrown + js_value) \<times> world" where
  "api_verifyOTP P net email otp w =
     api_postForm P net ''/auth/verify-otp'' [(''email'', FText email), (''otp'', FText otp)] w"

definition detectDeepfake ::
  "platform \<Rightarrow> network \<Rightarrow> file_desc \<Rightarrow> world \<Rightarrow> (thrown + js_value) \<times> world" where
  "detectDeepfake P net file w =
     api_postForm P net ''/media/detect'' [(''file'', FFile file)] w"

text \<open>
  \<^verbatim>\<open>submitComplaint\<close>: the keys of the complaint whose value is neither
  \<^verbatim>\<open>null\<close> nor \<^verbatim>\<open>undefined\<close>, appended to the form in order.
\<close>

definition api_submitComplaint ::
  "platform \<Rightarrow> network \<Rightarrow> (string \<times> js_value) list \<Rightarrow> world \<Rightarrow> (thrown + js_value) \<times> world" where
  "api_submitComplaint P net complaintData w =
     api_postForm P net ''/complaints/submit''
       (map (\<lambda>(k, v). (k, FText (to_str P v)))
          (filter (\<lambda>(k, v). v \<noteq> JNull \<and> v \<noteq> JUndefined) complaintData)) w"

definition getDashboard :: "platform \<Rightarrow> network \<Rightarrow> world \<Rightarrow> (thrown + js_value) \<times> world" where
  "getDashboard P net w = api_get P net ''/dashboard'' [] w"

definition healthCheck :: "platform \<Rightarrow> network \<Rightarrow> world \<Rightarrow> (thrown + js_value) \<times> world" where
  "healthCheck P net w = api_get P net ''/health'' [] w"

section \<open>The session manager (class AuthManager)\<close>

text \<open>
  \<^verbatim>\<open>this.token.split('.')[1]\<close> as \<^verbatim>\<open>atob\<close> receives it: the second segment,
  or the string of \<^verbatim>\<open>undefined\<close> when there is none.
\<close>

definition payload_segment :: "string \<Rightarrow> string" where
  "payload_segment tok =
     (case split_on CHR ''.'' tok of
        a # b # rest \<Rightarrow> b
      | _ \<Rightarrow> ''undefined'')"

text \<open>
  \<^verbatim>\<open>isTokenExpired\<close>, at the time \<open>now_ms\<close> that \<^verbatim>\<open>Date.now()\<close> returns
  (one reading of the clock stands for all readings within one operation).
  A token that is truthy and not a string has no \<^verbatim>\<open>split\<close>: the call throws
  inside the \<^verbatim>\<open>try\<close>.
\<close>

definition isTokenExpired :: "platform \<Rightarrow> int \<Rightarrow> world \<Rightarrow> bool" where
  "isTokenExpired P now_ms w =
     (if \<not> truthy (auth_token w) then True
      else (case auth_token w of
              JStr tok \<Rightarrow>
                (case atob P (payload_segment tok) of
                   None \<Rightarrow> True
                 | Some decoded \<Rightarrow>
                     (case JSON_parse P decoded of
                        None \<Rightarrow> True
                      | Some pl \<Rightarrow>
                          (case get_prop pl ''exp'' of
                             Inl x \<Rightarrow> True
                           | Inr ex \<Rightarrow> js_less_num P ex (now_seconds P now_ms))))
            | _ \<Rightarrow> True))"

text \<open>
  \<^verbatim>\<open>isAuthenticated\<close> returns \<^verbatim>\<open>this.token && this.currentUser &&
  !this.isTokenExpired()\<close>; every caller tests the result, so the model gives its
  truthiness.
\<close>

definition isAuthenticated :: "platform \<Rightarrow> int \<Rightarrow> world \<Rightarrow> bool" where
  "isAuthenticated P now_ms w =
     (truthy (auth_token w) \<and> truthy (currentUser w) \<and> \<not> isTokenExpired P now_ms w)"

definition getCurrentUser :: "world \<Rightarrow> js_value" where
  "getCurrentUser w = currentUser w"

definition isProtectedPage :: "world \<Rightarrow> bool" where
  "isProtectedPage w =
     (last (split_on CHR ''/'' (pathname w))
        \<in> set [''dashboard.html'', ''complaint.html'', ''profile.html''])"

definition updateUI :: "platform \<Rightarrow> int \<Rightarrow> world \<Rightarrow> world" where
  "updateUI P now_ms w = emit (UpdateUI (isAuthenticated P now_ms w)) w"

definition setupTokenRefresh :: "world \<Rightarrow> world" where
  "setupTokenRefresh w = w\<lparr>refreshTimer := truthy (auth_token w)\<rparr>"

definition logout :: "platform \<Rightarrow> int \<Rightarrow> world \<Rightarrow> world" where
  "logout P now_ms w =
     (let w1 = w\<lparr>auth_token := JNull, currentUser := JNull\<rparr>;
          w2 = w1\<lparr>localStorage := removeItem (removeItem (localStorage w1) TOKEN_KEY) USER_KEY,
                  sessionStorage := removeItem (sessionStorage w1) ''otp_email''\<rparr>;
          w3 = clearAuth w2;
          w4 = w3\<lparr>refreshTimer := False\<rparr>;
          w5 = updateUI P now_ms w4;
          w6 = emit (Dispatch ''user-logout'') w5
      in if isProtectedPage w6 then emit (Navigate ''login.html'') w6 else w6)"

definition setAuthData :: "platform \<Rightarrow> int \<Rightarrow> js_value \<Rightarrow> js_value \<Rightarrow> world \<Rightarrow> world" where
  "setAuthData P now_ms token user w =
     (let w1 = w\<lparr>auth_token := token, currentUser := user\<rparr>;
          w2 = w1\<lparr>localStorage :=
                    setItem P (setItem P (localStorage w1) TOKEN_KEY token)
                      USER_KEY (JStr (JSON_stringify P user))\<rparr>;
          w3 = setToken P token w2;
          w4 = setupTokenRefresh w3;
          w5 = updateUI P now_ms w4
      in emit (Dispatch ''user-login'') w5)"

text \<open>
  \<^verbatim>\<open>loadStoredAuth\<close>: nothing happens unless both stored strings are truthy;
  a stored identity that does not parse, or an expired token, ends in
  \<^verbatim>\<open>logout\<close>.
\<close>

definition loadStoredAuth :: "platform \<Rightarrow> int \<Rightarrow> world \<Rightarrow> world" where
  "loadStoredAuth P now_ms w =
     (let token = getItem (localStorage w) TOKEN_KEY;
          userData = getItem (localStorage w) USER_KEY
      in if truthy token \<and> truthy userData then
           (let w1 = w\<lparr>auth_token := token\<rparr> in
            case JSON_parse P (to_str P userData) of
              None \<Rightarrow> logout P now_ms w1
            | Some u \<Rightarrow>
                (let w2 = setToken P token (w1\<lparr>currentUser := u\<rparr>) in
                 if isTokenExpired P now_ms w2 then logout P now_ms w2
                 else updateUI P now_ms w2))
         else w)"

text \<open>The callback of the refresh timer, run every minute while it is set.\<close>

definition refresh_tick :: "platform \<Rightarrow> int \<Rightarrow> world \<Rightarrow> world" where
  "refresh_tick P now_ms w = (if isTokenExpired P now_ms w then logout P now_ms w else w)"

definition handleAuthError :: "platform \<Rightarrow> int \<Rightarrow> thrown \<Rightarrow> world \<Rightarrow> world" where
  "handleAuthError P now_ms t w =
     (case t of
        APIError e \<Rightarrow> if isAuthError e then logout P now_ms w else w
      | Other x \<Rightarrow> w)"

definition auth_sendOTP ::
  "platform \<Rightarrow> network \<Rightarrow> int \<Rightarrow> string \<Rightarrow> world \<Rightarrow> (thrown + js_value) \<times> world" where
  "auth_sendOTP P net now_ms email w =
     (case api_sendOTP P net email w of
        (Inr response, w1) \<Rightarrow>
          (Inr response,
           w1\<lparr>sessionStorage := setItem P (sessionStorage w1) ''otp_email'' (JStr email)\<rparr>)
      | (Inl t, w1) \<Rightarrow> (Inl t, handleAuthError P now_ms t w1))"

text \<open>
  \<^verbatim>\<open>verifyOTP\<close> of the session manager.  Reading \<^verbatim>\<open>access_token\<close> of a
  \<^verbatim>\<open>null\<close> response and the "Invalid response format" error are thrown inside the
  \<^verbatim>\<open>try\<close>, so they too pass through \<^verbatim>\<open>handleAuthError\<close>.
\<close>

definition auth_verifyOTP ::
  "platform \<Rightarrow> network \<Rightarrow> int \<Rightarrow> string \<Rightarrow> string \<Rightarrow> world \<Rightarrow> (thrown + js_value) \<times> world" where
  "auth_verifyOTP P net now_ms email otp w =
     (case api_verifyOTP P net email otp w of
        (Inl t, w1) \<Rightarrow> (Inl t, handleAuthError P now_ms t w1)
      | (Inr response, w1) \<Rightarrow>
          (case get_prop response ''access_token'' of
             Inl x \<Rightarrow> (Inl (Other x), handleAuthError P now_ms (Other x) w1)
           | Inr tok \<Rightarrow>
               (case get_prop response ''user'' of
                  Inl x \<Rightarrow> (Inl (Other x), handleAuthError P now_ms (Other x) w1)
                | Inr user \<Rightarrow>
                    if truthy tok \<and> truthy user then
                      (let w2 = setAuthData P now_ms tok user w1 in
                       (Inr response,
                        w2\<lparr>sessionStorage := removeItem (sessionStorage w2) ''otp_email''\<rparr>))
                    else
                      (let t = Other (PlainError ''Invalid response format'') in
                       (Inl t, handleAuthError P now_ms t w1)))))"

definition requireAuth :: "platform \<Rightarrow> int \<Rightarrow> world \<Rightarrow> bool \<times> world" where
  "requireAuth P now_ms w =
     (if \<not> isAuthenticated P now_ms w then (False, emit (Navigate ''login.html'') w)
      else (True, w))"

section \<open>Validation of the identifier (Utils.isValidEmail)\<close>

text \<open>
  The regular expression \<^verbatim>\<open>/^[^\s@]+@[^\s@]+\.[^\s@]+$/\<close> is a sequence of
  literal characters and of character classes repeated once or more; \<^verbatim>\<open>test\<close>
  with both anchors asks whether the whole string matches the sequence.
\<close>

datatype regex_item = Lit char | Plus "char \<Rightarrow> bool"

fun matches :: "regex_item list \<Rightarrow> string \<Rightarrow> bool" where
  "matches [] s = (s = [])"
| "matches (Lit c # r) [] = False"
| "matches (Lit c # r) (x # xs) = (x = c \<and> matches r xs)"
| "matches (Plus p # r) [] = False"
| "matches (Plus p # r) (x # xs) = (p x \<and> (matches r xs \<or> matches (Plus p # r) xs))"

text \<open>
  \<^verbatim>\<open>\s\<close> among the code units below 256: tab, line feed, vertical tab, form
  feed, carriage return, space and the no-break space.
\<close>

definition is_space :: "char \<Rightarrow> bool" where
  "is_space c = (of_char c \<in> set [9, 10, 11, 12, 13, 32, 160 :: nat])"

definition not_space_at :: "char \<Rightarrow> bool" where
  "not_space_at c = (\<not> is_space c \<and> c \<noteq> CHR ''@'')"

definition emailRegex :: "regex_item list" where
  "emailRegex =
     [Plus not_space_at, Lit CHR ''@'', Plus not_space_at, Lit CHR ''.'', Plus not_space_at]"

definition isValidEmail :: "string \<Rightarrow> bool" where
  "isValidEmail email = matches emailRegex email"

section \<open>The application (class DeepShieldApp)\<close>

text \<open>\<^verbatim>\<open>error.message\<close> of whatever was caught, and \<^verbatim>\<open>error.message || fallback\<close>.\<close>

definition thrown_message :: "platform \<Rightarrow> thrown \<Rightarrow> string" where
  "thrown_message P t =
     (case t of
        APIError e \<Rightarrow> message e
      | Other (PlainError s) \<Rightarrow> s
      | Other x \<Rightarrow> exn_message P x)"

definition message_or :: "platform \<Rightarrow> thrown \<Rightarrow> string \<Rightarrow> string" where
  "message_or P t fallback = (if thrown_message P t \<noteq> [] then thrown_message P t else fallback)"

text \<open>
  \<^verbatim>\<open>sendOTP\<close> of the application; \<open>email\<close> is the value of the input field.
  The elements the function touches are those of the login page; writes to their
  style and text are not part of the state.
\<close>

definition app_sendOTP :: "platform \<Rightarrow> network \<Rightarrow> int \<Rightarrow> string \<Rightarrow> world \<Rightarrow> world" where
  "app_sendOTP P net now_ms email w =
     (if email = [] \<or> \<not> isValidEmail email
      then emit (Toast ''Please enter a valid email address'' ''error'') w
      else
        (case auth_sendOTP P net now_ms email w of
           (Inl t, w1) \<Rightarrow> emit (Toast (message_or P t ''Failed to send OTP'') ''error'') w1
         | (Inr response, w1) \<Rightarrow>
             (case get_prop response ''message'' of
                Inl x \<Rightarrow> emit (Toast (message_or P (Other x) ''Failed to send OTP'') ''error'') w1
              | Inr m \<Rightarrow>
                  (let w2 = emit (Toast (to_str P (js_or m (JStr ''OTP sent successfully'')))
                                   ''success'') w1
                   in case get_prop response ''otp'' of
                        Inl x \<Rightarrow>
                          emit (Toast (message_or P (Other x) ''Failed to send OTP'') ''error'') w2
                      | Inr otp \<Rightarrow>
                          if truthy otp
                          then emit (Toast (''Demo OTP: '' @ to_str P otp) ''info'') w2
                          else w2))))"

text \<open>
  \<^verbatim>\<open>verifyOTP\<close> of the application; \<open>otpInputs\<close> are the values of the
  \<^verbatim>\<open>.otp-input\<close> fields, joined with the empty separator.
\<close>

definition app_verifyOTP ::
  "platform \<Rightarrow> network \<Rightarrow> int \<Rightarrow> string \<Rightarrow> string list \<Rightarrow> world \<Rightarrow> world" where
  "app_verifyOTP P net now_ms email otpInputs w =
     (let otp = concat otpInputs in
      if length otp \<noteq> 6
      then emit (Toast ''Please enter the complete 6-digit OTP'' ''error'') w
      else
        (case auth_verifyOTP P net now_ms email otp w of
           (Inr response, w1) \<Rightarrow>
             emit (NavigateLater ''dashboard.html'') (emit (Toast ''Login successful!'' ''success'') w1)
         | (Inl t, w1) \<Rightarrow> emit (Toast (message_or P t ''Invalid OTP'') ''error'') w1))"

text \<open>The workflow handoff store: \<^verbatim>\<open>storeResults\<close> and \<^verbatim>\<open>getStoredResults\<close>.\<close>

definition storeResults :: "platform \<Rightarrow> js_value \<Rightarrow> world \<Rightarrow> world" where
  "storeResults P results w =
     w\<lparr>localStorage :=
         setItem P (localStorage w) ''detection_result'' (JStr (JSON_stringify P results))\<rparr>"

definition getStoredResults :: "platform \<Rightarrow> world \<Rightarrow> js_exn + js_value" where
  "getStoredResults P w =
     (let stored = getItem (localStorage w) ''detection_result'' in
      if truthy stored
      then (case JSON_parse P (to_str P stored) of None \<Rightarrow> Inl SyntaxError | Some v \<Rightarrow> Inr v)
      else Inr JNull)"


text \<open>
  The own enumerable properties that \<^verbatim>\<open>{...v}\<close> copies: those of an object,
  the indexed elements of a string or an array, nothing of another primitive.
\<close>

definition digit_char :: "nat \<Rightarrow> char" where
  "digit_char d = char_of (48 + d)"

fun decimal :: "nat \<Rightarrow> string" where
  "decimal n = (if n < 10 then [digit_char n] else decimal (n div 10) @ [digit_char (n mod 10)])"

definition indexed :: "js_value list \<Rightarrow> (string \<times> js_value) list" where
  "indexed xs = zip (map decimal [0..<length xs]) xs"

definition spread_props :: "js_value \<Rightarrow> (string \<times> js_value) list" where
  "spread_props v =
     (case v of
        JObj ps \<Rightarrow> ps
      | JStr s \<Rightarrow> indexed (map (\<lambda>c. JStr [c]) s)
      | JArr xs \<Rightarrow> indexed xs
      | _ \<Rightarrow> [])"

definition file_object :: "file_desc \<Rightarrow> js_value" where
  "file_object f =
     JObj [(''name'', JStr (file_name f)), (''size'', JNum (real (file_size f))),
           (''type'', JStr (file_type f))]"

definition result_object :: "platform \<Rightarrow> js_value \<Rightarrow> file_desc \<Rightarrow> js_value" where
  "result_object P response f =
     JObj (AList.update ''fileUrl'' (JStr (createObjectURL P f))
            (AList.update ''originalFile'' (file_object f) (spread_props response)))"

text \<open>
  \<^verbatim>\<open>analyzeMedia\<close> of the application; \<open>selectedFile\<close> is
  \<^verbatim>\<open>this.selectedFile\<close>.  The progress bar and the button are not part of the
  state.
\<close>

definition app_analyzeMedia ::
  "platform \<Rightarrow> network \<Rightarrow> int \<Rightarrow> file_desc option \<Rightarrow> world \<Rightarrow> world" where
  "app_analyzeMedia P net now_ms selectedFile w =
     (case selectedFile of
        None \<Rightarrow> emit (Toast ''Please select a file first'' ''error'') w
      | Some f \<Rightarrow>
          if \<not> isAuthenticated P now_ms w
          then emit (NavigateLater ''login.html'')
                 (emit (Toast ''Please log in to analyze media'' ''error'') w)
          else
            (case detectDeepfake P net f w of
               (Inl t, w1) \<Rightarrow> emit (Toast (message_or P t ''Analysis failed'') ''error'') w1
             | (Inr response, w1) \<Rightarrow>
                 emit (NavigateLater ''results.html'')
                   (emit (Toast ''Analysis complete!'' ''success'')
                      (storeResults P (result_object P response f) w1))))"

text \<open>
  \<^verbatim>\<open>loadDashboardData\<close> and \<^verbatim>\<open>initDashboardPage\<close>.  Reading
  \<^verbatim>\<open>data.statistics\<close> throws on a \<^verbatim>\<open>null\<close> body; the display functions
  write to the document only, and when one of them throws, the toast is that of
  a failed load.
\<close>

definition loadDashboardData :: "platform \<Rightarrow> network \<Rightarrow> world \<Rightarrow> world" where
  "loadDashboardData P net w =
     (case getDashboard P net w of
        (Inl t, w1) \<Rightarrow> emit (Toast ''Failed to load dashboard data'' ''error'') w1
      | (Inr d, w1) \<Rightarrow>
          (case get_prop d ''statistics'' of
             Inl x \<Rightarrow> emit (Toast ''Failed to load dashboard data'' ''error'') w1
           | Inr stats \<Rightarrow>
               if dashboard_renders P d then emit (Render ''dashboard'') w1
               else emit (Toast ''Failed to load dashboard data'' ''error'') w1))"

definition initDashboardPage :: "platform \<Rightarrow> network \<Rightarrow> int \<Rightarrow> world \<Rightarrow> world" where
  "initDashboardPage P net now_ms w =
     (case requireAuth P now_ms w of
        (False, w1) \<Rightarrow> w1
      | (True, w1) \<Rightarrow> loadDashboardData P net w1)"




section \<open>The single-file front end (script.js)\<close>

text \<open>
  The pages that load \<^verbatim>\<open>script.js\<close> (dashboard and results) run their own
  versions of the same operations, with \<^verbatim>\<open>fetch\<close> called directly and the
  session kept under \<^verbatim>\<open>deepshield_user\<close> alone.
\<close>

definition API_BASE_URL :: string where
  "API_BASE_URL = ''http://localhost:8000''"

definition legacy_request :: "string \<Rightarrow> (string \<times> form_value) list \<Rightarrow> http_request" where
  "legacy_request path form =
     \<lparr>req_url = API_BASE_URL @ path, req_method = Some ''POST'', req_headers = [],
      req_payload = FormData form\<rparr>"

definition network_error_status :: "world \<Rightarrow> world" where
  "network_error_status w = emit (Status ''Network error. Please try again.'' ''error'') w"

definition legacy_sendOTP :: "platform \<Rightarrow> network \<Rightarrow> string \<Rightarrow> world \<Rightarrow> world" where
  "legacy_sendOTP P net email w =
     (if email = [] then emit (Status ''Please enter your email address'' ''error'') w
      else
        (let rq = legacy_request ''/send-otp'' [(''email'', FText email)];
             w1 = emit (Fetch rq) w
         in case net rq of
              Rejects \<Rightarrow> network_error_status w1
            | Resolves r \<Rightarrow>
                (case resp_json r of
                   None \<Rightarrow> network_error_status w1
                 | Some d \<Rightarrow>
                     if resp_ok r then
                       (let w2 = emit (Status (''OTP sent to '' @ email @ ''. Check your email.'')
                                        ''success'') w1
                        in case get_prop d ''otp'' of
                             Inl x \<Rightarrow> network_error_status w2
                           | Inr otp \<Rightarrow>
                               if truthy otp
                               then emit (Status (''Demo OTP: '' @ to_str P otp @
                                      '' (This would be sent via email in production)'') ''info'') w2
                               else w2)
                     else
                       (case get_prop d ''detail'' of
                          Inl x \<Rightarrow> network_error_status w1
                        | Inr det \<Rightarrow>
                            emit (Status (to_str P (js_or det (JStr ''Failed to send OTP'')))
                                    ''error'') w1))))"

definition legacy_verifyOTP ::
  "platform \<Rightarrow> network \<Rightarrow> int \<Rightarrow> string \<Rightarrow> string list \<Rightarrow> world \<Rightarrow> world" where
  "legacy_verifyOTP P net now_ms email otpInputs w =
     (let otp = concat otpInputs in
      if length otp \<noteq> 6
      then emit (Status ''Please enter the complete 6-digit OTP'' ''error'') w
      else
        (let rq = legacy_request ''/verify-otp'' [(''email'', FText email), (''otp'', FText otp)];
             w1 = emit (Fetch rq) w
         in case net rq of
              Rejects \<Rightarrow> network_error_status w1
            | Resolves r \<Rightarrow>
                (case resp_json r of
                   None \<Rightarrow> network_error_status w1
                 | Some d \<Rightarrow>
                     if resp_ok r then
                       (let w2 = emit (Status ''Login successful! Redirecting...'' ''success'') w1
                        in case get_prop d ''email'' of
                             Inl x \<Rightarrow> network_error_status w2
                           | Inr em \<Rightarrow>
                               (case get_prop d ''session_token'' of
                                  Inl x \<Rightarrow> network_error_status w2
                                | Inr tok \<Rightarrow>
                                    emit (NavigateLater ''dashboard.html'')
                                      (w2\<lparr>localStorage :=
                                           setItem P (localStorage w2) ''deepshield_user''
                                             (JStr (JSON_stringify P
                                                (JObj [(''email'', em), (''session_token'', tok),
                                                       (''login_time'',
                                                        JStr (toISOString P now_ms))])))\<rparr>)))
                     else
                       (case get_prop d ''detail'' of
                          Inl x \<Rightarrow> network_error_status w1
                        | Inr det \<Rightarrow>
                            emit (Status (to_str P (js_or det (JStr ''Invalid OTP''))) ''error'') w1))))"

definition legacy_logout :: "world \<Rightarrow> world" where
  "legacy_logout w =
     emit (Navigate ''login.html'')
       (w\<lparr>localStorage :=
           removeItem (removeItem (removeItem (localStorage w) ''deepshield_user'')
             ''detection_result'') ''complaint_draft''\<rparr>)"

text \<open>
  \<^verbatim>\<open>JSON.parse(localStorage.getItem(key) || '{}')\<close>, as the script reads the
  stored user and the stored result.
\<close>

definition parse_stored :: "platform \<Rightarrow> world \<Rightarrow> string \<Rightarrow> js_value option" where
  "parse_stored P w k =
     JSON_parse P (to_str P (js_or (getItem (localStorage w) k) (JStr ''{}'')))"

definition legacy_analyzeMedia ::
  "platform \<Rightarrow> network \<Rightarrow> file_desc option \<Rightarrow> world \<Rightarrow> js_exn option \<times> world" where
  "legacy_analyzeMedia P net selectedFile w =
     (case selectedFile of
        None \<Rightarrow> (None, emit (Status ''Please select a file first'' ''error'') w)
      | Some f \<Rightarrow>
          (case parse_stored P w ''deepshield_user'' of
             None \<Rightarrow> (Some SyntaxError, w)
           | Some user \<Rightarrow>
               (case get_prop user ''email'' of
                  Inl x \<Rightarrow> (Some x, w)
                | Inr em \<Rightarrow>
                    if \<not> truthy em
                    then (None, emit (NavigateLater ''login.html'')
                                  (emit (Status ''Please login first'' ''error'') w))
                    else
                      (let rq = legacy_request ''/detect''
                                  [(''file'', FFile f), (''user_email'', FText (to_str P em))];
                           w1 = emit (Fetch rq) w
                       in case net rq of
                            Rejects \<Rightarrow> (None, network_error_status w1)
                          | Resolves r \<Rightarrow>
                              (case resp_json r of
                                 None \<Rightarrow> (None, network_error_status w1)
                               | Some d \<Rightarrow>
                                   if resp_ok r then
                                     (None,
                                      emit (NavigateLater ''results.html'')
                                        (w1\<lparr>localStorage :=
                                             setItem P (localStorage w1) ''detection_result''
                                               (JStr (JSON_stringify P (result_object P d f)))\<rparr>))
                                   else
                                     (case get_prop d ''detail'' of
                                        Inl x \<Rightarrow> (None, network_error_status w1)
                                      | Inr det \<Rightarrow>
                                          (None,
                                           emit (Status (to_str P (js_or det (JStr ''Analysis failed'')))
                                                   ''error'') w1)))))))"

text \<open>
  \<^verbatim>\<open>displayDetectionResults\<close> begins with
  \<^verbatim>\<open>data.originalFile.type.startsWith('image/')\<close>, which throws unless the
  stored result has an \<^verbatim>\<open>originalFile\<close> whose \<^verbatim>\<open>type\<close> is a string; the
  rest writes to the elements of the results page.
\<close>

definition displayDetectionResults :: "js_value \<Rightarrow> world \<Rightarrow> js_exn option \<times> world" where
  "displayDetectionResults d w =
     (case get_prop d ''originalFile'' of
        Inl x \<Rightarrow> (Some x, w)
      | Inr f \<Rightarrow>
          (case get_prop f ''type'' of
             Inl x \<Rightarrow> (Some x, w)
           | Inr (JStr ty) \<Rightarrow> (None, emit (Render ''results'') w)
           | Inr other \<Rightarrow> (Some TypeError, w)))"

definition initializeResultsPage :: "platform \<Rightarrow> world \<Rightarrow> js_exn option \<times> world" where
  "initializeResultsPage P w =
     (case parse_stored P w ''detection_result'' of
        None \<Rightarrow> (Some SyntaxError, w)
      | Some resultData \<Rightarrow>
          (case get_prop resultData ''detection_result'' of
             Inl x \<Rightarrow> (Some x, w)
           | Inr verdict \<Rightarrow>
               if \<not> truthy verdict then (None, emit (Navigate ''index.html'') w)
               else displayDetectionResults resultData w))"

section \<open>Concrete inputs\<close>

text \<open>
  A platform that behaves as the browser does on the few strings, values and
  times used below (\<^verbatim>\<open>atob("e30")\<close> is \<^verbatim>\<open>{}\<close>, and so on; the times are
  whole and half seconds, whose quotient by 1000 is a double), a network that is
  unreachable, one that answers every request with 401 and a JSON body, one that
  accepts the passcode, and worlds with and without a session.
\<close>

definition example_atob :: "string \<Rightarrow> string option" where
  \<open>example_atob s =
     (if s = ''e30'' then Some ''{}''
      else if s = ''eyJleHAiOjEwMH0'' then Some ''{"exp":100}''
      else None)\<close>

definition example_user :: js_value where
  "example_user = JObj [(''email'', JStr ''user@example.com'')]"

definition example_result :: js_value where
  "example_result =
     JObj [(''detection_result'', JStr ''Deepfake''), (''confidence_score'', JNum 92)]"

definition example_parse :: "string \<Rightarrow> js_value option" where
  \<open>example_parse s =
     (if s = ''{}'' then Some (JObj [])
      else if s = ''{"exp":100}'' then Some (JObj [(''exp'', JNum 100)])
      else if s = ''{"email":"user@example.com"}'' then Some example_user
      else if s = ''{"detection_result":"Deepfake","confidence_score":92}''
      then Some example_result
      else None)\<close>

definition example_stringify :: "js_value \<Rightarrow> string" where
  \<open>example_stringify v =
     (if v = JObj [] then ''{}''
      else if v = example_user then ''{"email":"user@example.com"}''
      else if v = example_result then ''{"detection_result":"Deepfake","confidence_score":92}''
      else ''null'')\<close>

definition example_platform :: platform where
  "example_platform =
     \<lparr>atob = example_atob, JSON_parse = example_parse, JSON_stringify = example_stringify,
      ToString_other = (\<lambda>v. ''null''), ToNumber_other = (\<lambda>v. None),
      exn_message = (\<lambda>x. ''Failed to fetch''), URLSearchParams_toString = (\<lambda>ps. []),
      toISOString = (\<lambda>t. ''1970-01-01T00:00:00.000Z''),
      createObjectURL = (\<lambda>f. ''blob:deepshield''),
      now_seconds = (\<lambda>t. real_of_int t / 1000),
      dashboard_renders = (\<lambda>d. False)\<rparr>"

definition anonymous_world :: world where
  "anonymous_world =
     \<lparr>localStorage = Map.empty, sessionStorage = Map.empty, api_token = JNull,
      auth_token = JNull, currentUser = JNull, refreshTimer = False,
      baseURL = ''http://localhost:8000'', pathname = ''/index.html'', trace = []\<rparr>"

text \<open>A session whose token carries the payload \<^verbatim>\<open>{"exp":100}\<close>.\<close>

definition session_world :: world where
  \<open>session_world =
     anonymous_world
       \<lparr>localStorage := [TOKEN_KEY \<mapsto> ''h.eyJleHAiOjEwMH0.s'',
                         USER_KEY \<mapsto> ''{"email":"user@example.com"}''],
        api_token := JStr ''h.eyJleHAiOjEwMH0.s'',
        auth_token := JStr ''h.eyJleHAiOjEwMH0.s'',
        currentUser := example_user, refreshTimer := True\<rparr>\<close>

definition unreachable :: network where
  "unreachable rq = Rejects"

definition json_response :: "int \<Rightarrow> js_value \<Rightarrow> http_response" where
  "json_response st d =
     \<lparr>resp_status = st, resp_content_type = Some ''application/json'',
      resp_json = Some d, resp_text = None\<rparr>"


definition unauthorized :: network where
  "unauthorized rq = Resolves (json_response 401 (JObj [(''detail'', JStr ''Not authenticated'')]))"

definition example_file :: file_desc where
  "example_file = \<lparr>file_name = ''clip.mp4'', file_size = 1024, file_type = ''video/mp4''\<rparr>"

text \<open>
  A server that accepts the passcode: once with a token whose payload is
  \<^verbatim>\<open>{"exp":100}\<close>, once with an opaque token that has no payload segment.
\<close>

definition accepting :: network where
  "accepting rq =
     Resolves (json_response 200
       (JObj [(''access_token'', JStr ''h.eyJleHAiOjEwMH0.s''), (''user'', example_user)]))"

definition accepting_opaque :: network where
  "accepting_opaque rq =
     Resolves (json_response 200
       (JObj [(''access_token'', JStr ''opaque-session-token''), (''user'', example_user)]))"

text \<open>A session whose token carries the payload \<^verbatim>\<open>{}\<close>: no expiry claim.\<close>

definition noexp_world :: world where
  \<open>noexp_world =
     anonymous_world
       \<lparr>localStorage := [TOKEN_KEY \<mapsto> ''h.e30.s'',
                         USER_KEY \<mapsto> ''{"email":"user@example.com"}''],
        api_token := JStr ''h.e30.s'', auth_token := JStr ''h.e30.s'',
        currentUser := example_user, refreshTimer := True\<rparr>\<close>

text \<open>A session on the dashboard, with a published result and a saved draft in the store.\<close>

definition handoff_world :: world where
  \<open>handoff_world =
     session_world
       \<lparr>localStorage :=
          [TOKEN_KEY \<mapsto> ''h.eyJleHAiOjEwMH0.s'',
           USER_KEY \<mapsto> ''{"email":"user@example.com"}'',
           ''detection_result'' \<mapsto> ''{"detection_result":"Deepfake","confidence_score":92}'',
           ''complaint_draft'' \<mapsto> ''{}''],
        pathname := ''/dashboard.html''\<rparr>\<close>

section \<open>Notions the claims are stated with\<close>

text \<open>
  Every run of \<^verbatim>\<open>logout\<close> dispatches \<^verbatim>\<open>user-logout\<close> once and nothing
  else dispatches it, so the runs of \<^verbatim>\<open>logout\<close> are counted in the trace.
\<close>

definition logouts :: "world \<Rightarrow> nat" where
  "logouts w = length (filter (\<lambda>e. e = Dispatch ''user-logout'') (trace w))"

text \<open>The stored session, as far as the operations keep it: both keys or neither.\<close>

definition both_or_neither :: "storage \<Rightarrow> bool" where
  "both_or_neither ls =
     ((ls TOKEN_KEY \<noteq> None \<and> ls USER_KEY \<noteq> None)
      \<or> (ls TOKEN_KEY = None \<and> ls USER_KEY = None))"

text \<open>
  The stored session as the specification words the invariant: credential,
  identity and an expiry that is still valid, all three, or nothing.  The expiry
  of the stored credential is judged by \<^const>\<open>isTokenExpired\<close> itself.
\<close>

definition spec_all_or_nothing :: "platform \<Rightarrow> int \<Rightarrow> storage \<Rightarrow> bool" where
  "spec_all_or_nothing P now_ms ls =
     ((ls TOKEN_KEY \<noteq> None \<and> ls USER_KEY \<noteq> None
       \<and> \<not> isTokenExpired P now_ms (anonymous_world\<lparr>auth_token := getItem ls TOKEN_KEY\<rparr>))
      \<or> (ls TOKEN_KEY = None \<and> ls USER_KEY = None))"

section \<open>Theorems\<close>

subsection \<open>Classification of failures\<close>







lemma unreadable_401_is_network_error:
  "fst (request example_platform
          (\<lambda>rq. Resolves \<lparr>resp_status = 401, resp_content_type = Some ''application/json'',
                          resp_json = None, resp_text = None\<rparr>)
          ''/dashboard'' \<lparr>opt_method = Some ''GET'', opt_headers = None, opt_body = NoBody\<rparr>
          anonymous_world)
     = Inl (APIError \<lparr>message = ERRORS_NETWORK, status = 0, data = Caught BodyReadFailed\<rparr>)"
  by (simp add: request_def Let_def request_try_def read_body_def request_catch_def)




subsection \<open>Effects of the transport client\<close>

lemma fetches_emit: "fetches (emit e w) = (if is_fetch e then fetches w @ [e] else fetches w)"
  by (simp add: fetches_def emit_def)

lemma request_fetches:
  "fetches (snd (request P net ep opts w)) = fetches w @ [Fetch (make_request P ep opts w)]"
  by (simp add: request_def Let_def fetches_emit)



text \<open>On an object with well-formed headers \<open>request_call\<close> is \<^const>\<open>request\<close>.\<close>

lemma request_call_object:
  "request_call P net ep
     (OptionsObject \<lparr>arg_method = m, arg_headers = HeadersObject hs, arg_body = b\<rparr>) w
     = request P net ep \<lparr>opt_method = m, opt_headers = Some hs, opt_body = b\<rparr> w"
  "request_call P net ep
     (OptionsObject \<lparr>arg_method = m, arg_headers = HeadersAbsent, arg_body = b\<rparr>) w
     = request P net ep \<lparr>opt_method = m, opt_headers = None, opt_body = b\<rparr> w"
  by (simp_all add: request_call_def)






lemma emit_fields [simp]:
  "localStorage (emit e w) = localStorage w"
  "sessionStorage (emit e w) = sessionStorage w"
  "api_token (emit e w) = api_token w"
  "auth_token (emit e w) = auth_token w"
  "currentUser (emit e w) = currentUser w"
  "refreshTimer (emit e w) = refreshTimer w"
  "pathname (emit e w) = pathname w"
  "baseURL (emit e w) = baseURL w"
  by (simp_all add: emit_def)

lemma anonymous_fetches: "fetches anonymous_world = []"
  by (simp add: fetches_def anonymous_world_def)

lemma anonymous_not_authenticated: "\<not> isAuthenticated P now_ms anonymous_world"
  by (simp add: isAuthenticated_def anonymous_world_def)

lemma make_request_without_token:
  "\<not> truthy (api_token w) \<Longrightarrow>
     req_headers (make_request P ep opts w)
       = (case opt_headers opts of
            None \<Rightarrow> [(''Content-Type'', ''application/json'')] | Some h \<Rightarrow> h)"
  by (simp add: make_request_def Let_def)

lemma analyzeMedia_guard:
  "\<not> isAuthenticated P now_ms w \<Longrightarrow> fetches (app_analyzeMedia P net now_ms file w) = fetches w"
  by (simp add: app_analyzeMedia_def fetches_emit split: option.splits)

lemma initDashboardPage_guard:
  "\<not> isAuthenticated P now_ms w \<Longrightarrow> fetches (initDashboardPage P net now_ms w) = fetches w"
  by (simp add: initDashboardPage_def requireAuth_def fetches_emit)

text \<open>
  C1, as the code has it. The transport client has no session gate: every call of
  \<^verbatim>\<open>request\<close> performs exactly one network call, with or without a session,
  and without a token it sends the headers it was given (or the default ones) and
  no bearer header. Calls without a session are held back by the callers:
  \<^verbatim>\<open>analyzeMedia\<close> and \<^verbatim>\<open>initDashboardPage\<close> make no network call when
  \<^verbatim>\<open>isAuthenticated()\<close> is false.
\<close>

theorem transport_has_no_session_gate:
  "fetches (snd (request P net ep opts w)) = fetches w @ [Fetch (make_request P ep opts w)]
   \<and> (\<not> truthy (api_token w) \<longrightarrow>
        req_headers (make_request P ep opts w)
          = (case opt_headers opts of
               None \<Rightarrow> [(''Content-Type'', ''application/json'')] | Some h \<Rightarrow> h))
   \<and> (\<not> isAuthenticated P now_ms w \<longrightarrow>
        fetches (app_analyzeMedia P net now_ms file w) = fetches w)
   \<and> (\<not> isAuthenticated P now_ms w \<longrightarrow>
        fetches (initDashboardPage P net now_ms w) = fetches w)"
  by (simp add: request_fetches make_request_without_token analyzeMedia_guard
      initDashboardPage_guard)

theorem transport_has_no_session_gate_witness:
  "\<not> truthy (api_token anonymous_world)
   \<and> \<not> isAuthenticated example_platform 0 anonymous_world
   \<and> fetches (snd (request example_platform unauthorized ''/complaints/submit''
        \<lparr>opt_method = Some ''POST'', opt_headers = Some [], opt_body = FormData []\<rparr>
        anonymous_world))
      = [Fetch \<lparr>req_url = ''http://localhost:8000/complaints/submit'', req_method = Some ''POST'',
                req_headers = [], req_payload = FormData []\<rparr>]
   \<and> fetches (app_analyzeMedia example_platform unauthorized 0 (Some example_file) anonymous_world) = []
   \<and> fetches (initDashboardPage example_platform unauthorized 0 anonymous_world) = []"
  using transport_has_no_session_gate
    [of example_platform unauthorized "''/complaints/submit''"
        "\<lparr>opt_method = Some ''POST'', opt_headers = Some [], opt_body = FormData []\<rparr>"
        anonymous_world 0 "Some example_file"]
  by (simp add: anonymous_not_authenticated)
     (simp add: anonymous_world_def make_request_def fetches_def)

text \<open>
  C1, as the specification words it, fails: with no session at all (no token in
  memory or in the store), \<^verbatim>\<open>submitComplaint\<close> of the transport client sends
  the request, and what the caller gets is the server's 401 as an
  \<^verbatim>\<open>APIError\<close>.
\<close>

theorem submit_without_session_reaches_network:
  "\<not> isAuthenticated example_platform 0 anonymous_world
   \<and> getItem (localStorage anonymous_world) TOKEN_KEY = JNull
   \<and> fetches (snd (api_submitComplaint example_platform unauthorized
        [(''complaint_text'', JStr ''stolen likeness'')] anonymous_world))
      = [Fetch \<lparr>req_url = ''http://localhost:8000/complaints/submit'', req_method = Some ''POST'',
                req_headers = [],
                req_payload = FormData [(''complaint_text'', FText ''stolen likeness'')]\<rparr>]
   \<and> fst (api_submitComplaint example_platform unauthorized
        [(''complaint_text'', JStr ''stolen likeness'')] anonymous_world)
      = Inl (APIError \<lparr>message = ''Not authenticated'', status = 401,
               data = Payload (JObj [(''detail'', JStr ''Not authenticated'')])\<rparr>)"
  apply (simp add: anonymous_not_authenticated)
  apply (simp add: api_submitComplaint_def api_postForm_def request_def Let_def fetches_emit
      make_request_def anonymous_world_def getItem_def fetches_def to_str_def
      request_try_def unauthorized_def json_response_def read_body_def resp_ok_def
      error_message_def request_catch_def emit_def)
  done

subsection \<open>Local validation before the network\<close>

text \<open>
  C7. When the joined passcode does not have length 6, \<^verbatim>\<open>verifyOTP\<close> (of the
  application and of \<^verbatim>\<open>script.js\<close>) shows its message and does nothing else:
  no network call is made.
\<close>

theorem wrong_length_passcode_rejected_locally:
  "length (concat otpInputs) \<noteq> 6 \<Longrightarrow>
     app_verifyOTP P net now_ms email otpInputs w
       = emit (Toast ''Please enter the complete 6-digit OTP'' ''error'') w
     \<and> fetches (app_verifyOTP P net now_ms email otpInputs w) = fetches w
     \<and> legacy_verifyOTP P net now_ms email otpInputs w
       = emit (Status ''Please enter the complete 6-digit OTP'' ''error'') w
     \<and> fetches (legacy_verifyOTP P net now_ms email otpInputs w) = fetches w"
  by (simp add: app_verifyOTP_def legacy_verifyOTP_def Let_def fetches_emit)

theorem wrong_length_passcode_rejected_locally_witness:
  "length (concat [''1'', ''2'', ''3'', ''4'', ''5'']) \<noteq> 6
   \<and> app_verifyOTP example_platform unauthorized 0 ''user@example.com''
        [''1'', ''2'', ''3'', ''4'', ''5''] anonymous_world
       = emit (Toast ''Please enter the complete 6-digit OTP'' ''error'') anonymous_world
   \<and> fetches (app_verifyOTP example_platform unauthorized 0 ''user@example.com''
        [''1'', ''2'', ''3'', ''4'', ''5''] anonymous_world) = []
   \<and> fetches (legacy_verifyOTP example_platform unauthorized 0 ''user@example.com''
        [''1'', ''2'', ''3'', ''4'', ''5''] anonymous_world) = []"
proof -
  have short: "length (concat [''1'', ''2'', ''3'', ''4'', ''5'']) \<noteq> 6"
    by simp
  from wrong_length_passcode_rejected_locally [OF short]
  show ?thesis
    using short by (simp add: anonymous_fetches fetches_emit)
qed

lemma matches_contains_literal:
  "matches r s \<Longrightarrow> Lit c \<in> set r \<Longrightarrow> c \<in> set s"
  by (induction r s rule: matches.induct) auto

lemma isValidEmail_has_at: "isValidEmail email \<Longrightarrow> CHR ''@'' \<in> set email"
  using matches_contains_literal [of emailRegex email "CHR ''@''"]
  by (simp add: isValidEmail_def emailRegex_def)

lemma isValidEmail_example: "isValidEmail ''user@example.com''"
  by (simp add: isValidEmail_def emailRegex_def not_space_at_def is_space_def)

text \<open>
  The application rejects every identifier that is empty or has no \<^verbatim>\<open>@\<close>
  before anything else happens; the script rejects the empty identifier only.
\<close>

lemma app_sendOTP_rejects_malformed:
  "email = [] \<or> CHR ''@'' \<notin> set email \<Longrightarrow>
     app_sendOTP P net now_ms email w
       = emit (Toast ''Please enter a valid email address'' ''error'') w"
  using isValidEmail_has_at [of email] by (auto simp add: app_sendOTP_def)

lemma legacy_sendOTP_rejects_empty:
  "legacy_sendOTP P net [] w = emit (Status ''Please enter your email address'' ''error'') w"
  by (simp add: legacy_sendOTP_def)

text \<open>
  C8 fails in \<^verbatim>\<open>script.js\<close>: its \<^verbatim>\<open>sendOTP\<close> tests the identifier for
  emptiness only, so the identifier \<^verbatim>\<open>abc\<close>, which has no \<^verbatim>\<open>@\<close>, is sent
  to the server, where \<^verbatim>\<open>sendOTP\<close> of the application makes no network call.
\<close>

theorem legacy_sendOTP_sends_identifier_without_at:
  "CHR ''@'' \<notin> set ''abc''
   \<and> fetches (legacy_sendOTP example_platform unreachable ''abc'' anonymous_world)
      = [Fetch \<lparr>req_url = ''http://localhost:8000/send-otp'', req_method = Some ''POST'',
                req_headers = [], req_payload = FormData [(''email'', FText ''abc'')]\<rparr>]
   \<and> fetches (app_sendOTP example_platform unreachable 0 ''abc'' anonymous_world) = []"
  by (simp add: legacy_sendOTP_def Let_def legacy_request_def API_BASE_URL_def unreachable_def
      network_error_status_def fetches_emit anonymous_fetches app_sendOTP_rejects_malformed)

subsection \<open>Expiry of the credential\<close>

lemma payload_segment_examples:
  "payload_segment ''h.e30.s'' = ''e30''"
  "payload_segment ''h.eyJleHAiOjEwMH0.s'' = ''eyJleHAiOjEwMH0''"
  "payload_segment ''opaque-session-token'' = ''undefined''"
  by (simp_all add: payload_segment_def)

text \<open>The cases in which the credential counts as expired without a look at the clock.\<close>

lemma isTokenExpired_no_token: "\<not> truthy (auth_token w) \<Longrightarrow> isTokenExpired P now_ms w"
  by (simp add: isTokenExpired_def)

lemma isTokenExpired_not_decodable:
  "auth_token w = JStr tok \<Longrightarrow> atob P (payload_segment tok) = None \<Longrightarrow> isTokenExpired P now_ms w"
  by (simp add: isTokenExpired_def)

lemma isTokenExpired_not_parseable:
  "auth_token w = JStr tok \<Longrightarrow> atob P (payload_segment tok) = Some d \<Longrightarrow> JSON_parse P d = None
     \<Longrightarrow> isTokenExpired P now_ms w"
  by (simp add: isTokenExpired_def)

text \<open>A numeric expiry is compared with the clock; a missing one is never in the past.\<close>

lemma isTokenExpired_numeric_exp:
  "auth_token w = JStr tok \<Longrightarrow> tok \<noteq> [] \<Longrightarrow> atob P (payload_segment tok) = Some d
     \<Longrightarrow> JSON_parse P d = Some (JObj ps) \<Longrightarrow> map_of ps ''exp'' = Some (JNum e)
     \<Longrightarrow> isTokenExpired P now_ms w = (e < now_seconds P now_ms)"
  by (simp add: isTokenExpired_def js_less_num_def)

lemma isTokenExpired_missing_exp:
  "auth_token w = JStr tok \<Longrightarrow> tok \<noteq> [] \<Longrightarrow> atob P (payload_segment tok) = Some d
     \<Longrightarrow> JSON_parse P d = Some (JObj ps) \<Longrightarrow> map_of ps ''exp'' = None
     \<Longrightarrow> \<not> isTokenExpired P now_ms w"
  by (simp add: isTokenExpired_def js_less_num_def)

lemma session_valid_until_after_exp:
  "isAuthenticated example_platform 99500 session_world"
  "isAuthenticated example_platform 100000 session_world"
  "\<not> isAuthenticated example_platform 100500 session_world"
  by (simp_all add: payload_segment_examples example_platform_def example_atob_def
      example_parse_def isAuthenticated_def isTokenExpired_def session_world_def
      js_less_num_def example_user_def)

text \<open>
  C2 fails on a credential without an expiry claim: the token \<^verbatim>\<open>h.e30.s\<close>
  decodes to the payload \<^verbatim>\<open>{}\<close>, its \<^verbatim>\<open>exp\<close> is \<^verbatim>\<open>undefined\<close>, the
  comparison \<^verbatim>\<open>undefined < now\<close> is false, and the session counts as
  authenticated at every time.
\<close>

theorem token_without_exp_is_authenticated:
  "atob example_platform (payload_segment ''h.e30.s'') = Some ''{}''
   \<and> JSON_parse example_platform ''{}'' = Some (JObj [])
   \<and> get_prop (JObj []) ''exp'' = Inr JUndefined
   \<and> \<not> isTokenExpired example_platform now_ms noexp_world
   \<and> isAuthenticated example_platform now_ms noexp_world"
  by (simp add: payload_segment_examples example_platform_def example_atob_def
      example_parse_def isAuthenticated_def isTokenExpired_def noexp_world_def
      js_less_num_def example_user_def)

subsection \<open>Ending the session\<close>

lemma logouts_emit:
  "logouts (emit e w) = (if e = Dispatch ''user-logout'' then Suc (logouts w) else logouts w)"
  by (simp add: logouts_def emit_def)

lemma logout_localStorage:
  "localStorage (logout P now_ms w) = (localStorage w)(TOKEN_KEY := None, USER_KEY := None)"
  by (simp add: logout_def Let_def clearAuth_def updateUI_def removeItem_def)

lemma logout_memory:
  "auth_token (logout P now_ms w) = JNull"
  "currentUser (logout P now_ms w) = JNull"
  "api_token (logout P now_ms w) = JNull"
  "refreshTimer (logout P now_ms w) = False"
  by (simp_all add: logout_def Let_def clearAuth_def updateUI_def)

lemma logout_effects:
  "logouts (logout P now_ms w) = Suc (logouts w)"
  "fetches (logout P now_ms w) = fetches w"
  by (simp_all add: logout_def Let_def updateUI_def logouts_emit fetches_emit)
     (simp_all add: logouts_def fetches_def clearAuth_def)

text \<open>What \<^verbatim>\<open>logout\<close> does achieve: no stored session, no session in memory.\<close>

lemma logout_ends_session:
  "getItem (localStorage (logout P now_ms w)) TOKEN_KEY = JNull"
  "getItem (localStorage (logout P now_ms w)) USER_KEY = JNull"
  "getCurrentUser (logout P now_ms w) = JNull"
  "\<not> isAuthenticated P t (logout P now_ms w)"
  by (simp_all add: logout_localStorage logout_memory getItem_def isAuthenticated_def
      getCurrentUser_def)

lemma logout_keeps_other_keys:
  "k \<noteq> TOKEN_KEY \<Longrightarrow> k \<noteq> USER_KEY \<Longrightarrow> localStorage (logout P now_ms w) k = localStorage w k"
  by (simp add: logout_localStorage)

text \<open>\<^verbatim>\<open>logout\<close> of the script removes its three keys, and not the token.\<close>

lemma legacy_logout_clears:
  "localStorage (legacy_logout w) USER_KEY = None"
  "localStorage (legacy_logout w) ''detection_result'' = None"
  "localStorage (legacy_logout w) ''complaint_draft'' = None"
  "localStorage (legacy_logout w) TOKEN_KEY = localStorage w TOKEN_KEY"
  by (simp_all add: legacy_logout_def removeItem_def USER_KEY_def TOKEN_KEY_def)

text \<open>
  C3 fails in \<^verbatim>\<open>AuthManager.logout\<close>: it removes the two session keys and
  nothing else, so a published detection result and a saved draft are still in
  the store, and still readable, after it; \<^verbatim>\<open>logout\<close> of \<^verbatim>\<open>script.js\<close>
  removes both.
\<close>

theorem logout_keeps_handoff_and_draft:
  \<open>localStorage (logout example_platform 50000 handoff_world) ''detection_result''
     = Some ''{"detection_result":"Deepfake","confidence_score":92}''
   \<and> localStorage (logout example_platform 50000 handoff_world) ''complaint_draft'' = Some ''{}''
   \<and> getStoredResults example_platform (logout example_platform 50000 handoff_world)
     = Inr example_result
   \<and> localStorage (legacy_logout handoff_world) ''detection_result'' = None
   \<and> localStorage (legacy_logout handoff_world) ''complaint_draft'' = None\<close>
  by (simp add: logout_localStorage getStoredResults_def getItem_def handoff_world_def
      TOKEN_KEY_def USER_KEY_def to_str_def example_platform_def example_parse_def
      legacy_logout_def removeItem_def)

subsection \<open>Authentication failures\<close>

lemma request_logouts: "logouts (snd (request P net ep opts w)) = logouts w"
  by (simp add: request_def Let_def logouts_emit)

lemma request_memory:
  "localStorage (snd (request P net ep opts w)) = localStorage w"
  "sessionStorage (snd (request P net ep opts w)) = sessionStorage w"
  "auth_token (snd (request P net ep opts w)) = auth_token w"
  "currentUser (snd (request P net ep opts w)) = currentUser w"
  "api_token (snd (request P net ep opts w)) = api_token w"
  by (simp_all add: request_def Let_def)

lemma storeResults_logouts: "logouts (storeResults P r w) = logouts w"
  by (simp add: storeResults_def logouts_def)

text \<open>No path through \<^verbatim>\<open>analyzeMedia\<close> or \<^verbatim>\<open>loadDashboardData\<close> runs \<^verbatim>\<open>logout\<close>.\<close>

lemma analyzeMedia_never_logs_out:
  "logouts (app_analyzeMedia P net now_ms file w) = logouts w"
  by (simp add: app_analyzeMedia_def detectDeepfake_def api_postForm_def case_prod_beta
      logouts_emit request_logouts storeResults_logouts split: option.splits sum.splits)

lemma loadDashboardData_never_logs_out:
  "logouts (loadDashboardData P net w) = logouts w"
  by (simp add: loadDashboardData_def getDashboard_def api_get_def case_prod_beta Let_def
      logouts_emit request_logouts split: sum.splits)

lemma handleAuthError_logouts:
  "logouts (handleAuthError P now_ms t w)
     = (case t of APIError e \<Rightarrow> if isAuthError e then Suc (logouts w) else logouts w
        | Other x \<Rightarrow> logouts w)"
  by (simp add: handleAuthError_def logout_effects split: thrown.splits)

lemma handleAuthError_fetches: "fetches (handleAuthError P now_ms t w) = fetches w"
  by (simp add: handleAuthError_def logout_effects split: thrown.splits)

text \<open>
  Where the session manager makes the call itself, an authentication failure
  runs \<^verbatim>\<open>logout\<close> once, and the call is not repeated.
\<close>

lemma auth_verifyOTP_auth_failure:
  "fst (api_verifyOTP P net email otp w) = Inl (APIError e) \<Longrightarrow> isAuthError e \<Longrightarrow>
     logouts (snd (auth_verifyOTP P net now_ms email otp w)) = Suc (logouts w)
     \<and> length (fetches (snd (auth_verifyOTP P net now_ms email otp w))) = Suc (length (fetches w))"
  by (simp add: auth_verifyOTP_def api_verifyOTP_def api_postForm_def case_prod_beta
      handleAuthError_logouts handleAuthError_fetches request_logouts request_fetches)

lemma auth_sendOTP_auth_failure:
  "fst (api_sendOTP P net email w) = Inl (APIError e) \<Longrightarrow> isAuthError e \<Longrightarrow>
     logouts (snd (auth_sendOTP P net now_ms email w)) = Suc (logouts w)
     \<and> length (fetches (snd (auth_sendOTP P net now_ms email w))) = Suc (length (fetches w))"
  by (simp add: auth_sendOTP_def api_sendOTP_def api_postForm_def case_prod_beta
      handleAuthError_logouts handleAuthError_fetches request_logouts request_fetches)

lemma session_world_authenticated: "isAuthenticated example_platform 50000 session_world"
  by (simp add: payload_segment_examples example_platform_def example_atob_def
      example_parse_def isAuthenticated_def isTokenExpired_def session_world_def
      js_less_num_def example_user_def)

lemma session_world_effects: "logouts session_world = 0" "fetches session_world = []"
  by (simp_all add: logouts_def fetches_def session_world_def anonymous_world_def)

lemma unauthorized_detect:
  "fst (detectDeepfake example_platform unauthorized example_file session_world)
     = Inl (APIError \<lparr>message = ''Not authenticated'', status = 401,
              data = Payload (JObj [(''detail'', JStr ''Not authenticated'')])\<rparr>)"
  by (simp add: detectDeepfake_def api_postForm_def request_def Let_def request_try_def
      unauthorized_def json_response_def read_body_def resp_ok_def error_message_def
      request_catch_def to_str_def)

text \<open>
  C6 fails where the application calls the transport client itself: with a valid
  session, a 401 on the detection call is classified as an authentication error,
  and \<^verbatim>\<open>analyzeMedia\<close> shows the message and stops, with no run of
  \<^verbatim>\<open>logout\<close>; the session manager, on the same answer to its own call, runs
  \<^verbatim>\<open>logout\<close> once.
\<close>

theorem analyzeMedia_auth_failure_without_logout:
  "isAuthenticated example_platform 50000 session_world
   \<and> fst (detectDeepfake example_platform unauthorized example_file session_world)
       = Inl (APIError \<lparr>message = ''Not authenticated'', status = 401,
                data = Payload (JObj [(''detail'', JStr ''Not authenticated'')])\<rparr>)
   \<and> isAuthError \<lparr>message = ''Not authenticated'', status = 401,
                data = Payload (JObj [(''detail'', JStr ''Not authenticated'')])\<rparr>
   \<and> logouts (app_analyzeMedia example_platform unauthorized 50000 (Some example_file)
        session_world) = 0
   \<and> trace (app_analyzeMedia example_platform unauthorized 50000 (Some example_file)
        session_world)
       = [Fetch (make_request example_platform ''/media/detect''
            \<lparr>opt_method = Some ''POST'', opt_headers = Some [],
             opt_body = FormData [(''file'', FFile example_file)]\<rparr> session_world),
          Toast ''Not authenticated'' ''error'']
   \<and> logouts (snd (auth_verifyOTP example_platform unauthorized 50000 ''user@example.com''
        ''123456'' session_world)) = 1"
proof -
  have a: "logouts (app_analyzeMedia example_platform unauthorized 50000 (Some example_file)
        session_world) = 0"
    by (simp add: analyzeMedia_never_logs_out session_world_effects)
  have b: "trace (app_analyzeMedia example_platform unauthorized 50000 (Some example_file)
        session_world)
       = [Fetch (make_request example_platform ''/media/detect''
            \<lparr>opt_method = Some ''POST'', opt_headers = Some [],
             opt_body = FormData [(''file'', FFile example_file)]\<rparr> session_world),
          Toast ''Not authenticated'' ''error'']"
    using unauthorized_detect
    by (simp add: app_analyzeMedia_def session_world_authenticated case_prod_beta
        message_or_def thrown_message_def)
       (simp add: detectDeepfake_def api_postForm_def request_def Let_def emit_def
        session_world_def anonymous_world_def)
  have c: "fst (api_verifyOTP example_platform unauthorized ''user@example.com'' ''123456''
              session_world)
       = Inl (APIError \<lparr>message = ''Not authenticated'', status = 401,
                data = Payload (JObj [(''detail'', JStr ''Not authenticated'')])\<rparr>)"
    by (simp add: api_verifyOTP_def api_postForm_def request_def Let_def request_try_def
      unauthorized_def json_response_def read_body_def resp_ok_def error_message_def
      request_catch_def to_str_def)
  have d: "isAuthError \<lparr>message = ''Not authenticated'', status = 401,
                data = Payload (JObj [(''detail'', JStr ''Not authenticated'')])\<rparr>"
    by (simp add: isAuthError_def)
  from auth_verifyOTP_auth_failure [OF c d, of 50000]
  have e: "logouts (snd (auth_verifyOTP example_platform unauthorized 50000 ''user@example.com''
        ''123456'' session_world)) = 1"
    by (simp add: session_world_effects)
  from a b d e show ?thesis
    by (simp add: session_world_authenticated unauthorized_detect)
qed

subsection \<open>The workflow handoff store\<close>

lemma keys_distinct:
  "''detection_result'' \<noteq> TOKEN_KEY" "''detection_result'' \<noteq> USER_KEY"
  "TOKEN_KEY \<noteq> USER_KEY" "USER_KEY \<noteq> TOKEN_KEY"
  by (simp_all add: TOKEN_KEY_def USER_KEY_def)

lemma setToken_localStorage:
  "localStorage (setToken P token w)
     = (if truthy token then (localStorage w)(TOKEN_KEY \<mapsto> to_str P token)
        else (localStorage w)(TOKEN_KEY := None))"
  by (simp add: setToken_def Let_def setItem_def removeItem_def)

lemma updateUI_localStorage: "localStorage (updateUI P now_ms w) = localStorage w"
  by (simp add: updateUI_def)






text \<open>The script writes and reads the same key, with the same codec.\<close>

lemma legacy_store_then_parse:
  "JSON_parse P (JSON_stringify P r) = Some r \<Longrightarrow> JSON_stringify P r \<noteq> [] \<Longrightarrow>
     parse_stored P
       (w\<lparr>localStorage := setItem P (localStorage w) ''detection_result''
                               (JStr (JSON_stringify P r))\<rparr>) ''detection_result'' = Some r"
  by (simp add: parse_stored_def getItem_def setItem_def to_str_def js_or_def)



subsection \<open>The stored session\<close>

lemma both_or_neither_logout: "both_or_neither (localStorage (logout P now_ms w))"
  by (simp add: both_or_neither_def logout_localStorage)

lemma both_or_neither_handleAuthError:
  "both_or_neither (localStorage w) \<Longrightarrow> both_or_neither (localStorage (handleAuthError P now_ms t w))"
  by (simp add: handleAuthError_def both_or_neither_logout split: thrown.splits)

lemma setAuthData_localStorage:
  "truthy token \<Longrightarrow>
     localStorage (setAuthData P now_ms token user w)
       = (localStorage w)(USER_KEY \<mapsto> JSON_stringify P user, TOKEN_KEY \<mapsto> to_str P token)"
  by (simp add: setAuthData_def Let_def setToken_localStorage updateUI_localStorage
      setupTokenRefresh_def setItem_def to_str_def keys_distinct fun_upd_twist)

lemma both_or_neither_setAuthData:
  "truthy token \<Longrightarrow> both_or_neither (localStorage (setAuthData P now_ms token user w))"
  by (simp add: setAuthData_localStorage both_or_neither_def keys_distinct)

lemma truthy_getItem: "truthy (getItem ls k) \<Longrightarrow> ls k \<noteq> None"
  by (simp add: getItem_def split: option.splits)

lemma both_or_neither_loadStoredAuth:
  assumes "both_or_neither (localStorage w)"
  shows "both_or_neither (localStorage (loadStoredAuth P now_ms w))"
proof (cases "truthy (getItem (localStorage w) TOKEN_KEY) \<and> truthy (getItem (localStorage w) USER_KEY)")
  case False
  then have "loadStoredAuth P now_ms w = w"
    by (auto simp add: loadStoredAuth_def Let_def)
  with assms show ?thesis
    by simp
next
  case True
  then have user: "localStorage w USER_KEY \<noteq> None"
    by (simp add: truthy_getItem)
  have kept: "both_or_neither
      (localStorage (updateUI P now_ms (setToken P (getItem (localStorage w) TOKEN_KEY) w')))"
    if "localStorage w' = localStorage w" for w'
    using True user that
    by (simp add: both_or_neither_def updateUI_localStorage setToken_localStorage keys_distinct)
  from True show ?thesis
    by (simp add: loadStoredAuth_def Let_def both_or_neither_logout kept split: option.splits)
qed

lemma both_or_neither_refresh_tick:
  "both_or_neither (localStorage w) \<Longrightarrow> both_or_neither (localStorage (refresh_tick P now_ms w))"
  by (simp add: refresh_tick_def both_or_neither_logout)

lemma api_verifyOTP_localStorage:
  "localStorage (snd (api_verifyOTP P net email otp w)) = localStorage w"
  by (simp add: api_verifyOTP_def api_postForm_def request_memory)

lemma both_or_neither_auth_verifyOTP:
  "both_or_neither (localStorage w) \<Longrightarrow>
     both_or_neither (localStorage (snd (auth_verifyOTP P net now_ms email otp w)))"
  by (simp add: auth_verifyOTP_def case_prod_beta Let_def both_or_neither_handleAuthError
      both_or_neither_setAuthData api_verifyOTP_localStorage split: sum.splits)

lemma auth_verifyOTP_success_stores_both:
  "fst (auth_verifyOTP P net now_ms email otp w) = Inr response \<Longrightarrow>
     localStorage (snd (auth_verifyOTP P net now_ms email otp w)) TOKEN_KEY \<noteq> None
     \<and> localStorage (snd (auth_verifyOTP P net now_ms email otp w)) USER_KEY \<noteq> None"
  by (auto simp add: auth_verifyOTP_def case_prod_beta Let_def setAuthData_localStorage
      keys_distinct split: sum.splits if_splits)

text \<open>
  \<^verbatim>\<open>loadStoredAuth\<close> establishes more: from a store that holds two non-empty
  strings or nothing, what it leaves is a credential it has just judged
  unexpired, with the identity, or nothing.
\<close>

lemma isTokenExpired_token_only:
  "auth_token w = auth_token w' \<Longrightarrow> isTokenExpired P now_ms w = isTokenExpired P now_ms w'"
  by (simp add: isTokenExpired_def)

lemma spec_all_or_nothing_loadStoredAuth:
  assumes "(truthy (getItem (localStorage w) TOKEN_KEY) \<and> truthy (getItem (localStorage w) USER_KEY))
           \<or> (localStorage w TOKEN_KEY = None \<and> localStorage w USER_KEY = None)"
  shows "spec_all_or_nothing P now_ms (localStorage (loadStoredAuth P now_ms w))"
proof (cases "truthy (getItem (localStorage w) TOKEN_KEY) \<and> truthy (getItem (localStorage w) USER_KEY)")
  case False
  then have "loadStoredAuth P now_ms w = w"
    by (auto simp add: loadStoredAuth_def Let_def)
  with assms False show ?thesis
    by (auto simp add: spec_all_or_nothing_def)
next
  case True
  then obtain tok where tok: "localStorage w TOKEN_KEY = Some tok" "tok \<noteq> []"
    by (auto simp add: getItem_def split: option.splits)
  from True have user: "localStorage w USER_KEY \<noteq> None"
    by (simp add: truthy_getItem)
  have gone: "spec_all_or_nothing P now_ms (localStorage (logout P now_ms w'))" for w'
    by (simp add: spec_all_or_nothing_def logout_localStorage)
  have kept: "spec_all_or_nothing P now_ms
      (localStorage (updateUI P now_ms (setToken P (JStr tok) w')))"
    if "localStorage w' = localStorage w" "auth_token w' = JStr tok"
       "\<not> isTokenExpired P now_ms (setToken P (JStr tok) w')" for w'
  proof -
    have "isTokenExpired P now_ms (anonymous_world\<lparr>auth_token := JStr tok\<rparr>)
            = isTokenExpired P now_ms (setToken P (JStr tok) w')"
      by (rule isTokenExpired_token_only) (simp add: setToken_def Let_def that)
    with that tok user show ?thesis
      by (simp add: spec_all_or_nothing_def updateUI_localStorage setToken_localStorage
          keys_distinct getItem_def to_str_def)
  qed
  from True tok show ?thesis
    by (simp add: loadStoredAuth_def Let_def gone kept getItem_def split: option.splits)
qed

text \<open>
  What the operations do not repair: a store that holds one of the two keys is
  left as it is by \<^verbatim>\<open>loadStoredAuth\<close>, and \<^verbatim>\<open>setToken\<close> of the transport
  client, called on its own, writes the credential alone.
\<close>

lemma loadStoredAuth_without_identity:
  "localStorage w USER_KEY = None \<Longrightarrow> loadStoredAuth P now_ms w = w"
  by (simp add: loadStoredAuth_def Let_def getItem_def)

lemma setToken_alone_is_partial:
  "\<not> both_or_neither (localStorage (setToken P (JStr ''t'') anonymous_world))"
  by (simp add: setToken_localStorage both_or_neither_def anonymous_world_def keys_distinct)

text \<open>
  C9, as the code has it. \<^verbatim>\<open>logout\<close> leaves neither key in the store;
  \<^verbatim>\<open>loadStoredAuth\<close> and \<^verbatim>\<open>verifyOTP\<close> take a store that holds both keys
  or neither to such a store again; \<^verbatim>\<open>loadStoredAuth\<close>, from a store that holds
  two non-empty strings or nothing, leaves a credential just judged unexpired,
  with the identity, or nothing, and changes nothing when one of the two keys
  is missing; and a successful \<^verbatim>\<open>verifyOTP\<close> leaves both keys in the store.
  Of the expiry after \<^verbatim>\<open>verifyOTP\<close> nothing is said: the credential is
  stored as the server sent it.
\<close>

theorem session_keys_both_or_neither:
  "both_or_neither (localStorage (logout P now_ms w))
   \<and> localStorage (logout P now_ms w) TOKEN_KEY = None
   \<and> localStorage (logout P now_ms w) USER_KEY = None
   \<and> (localStorage w TOKEN_KEY = None \<or> localStorage w USER_KEY = None \<longrightarrow>
        loadStoredAuth P now_ms w = w)
   \<and> spec_all_or_nothing P now_ms (localStorage (logout P now_ms w))
   \<and> (both_or_neither (localStorage w) \<longrightarrow>
        both_or_neither (localStorage (loadStoredAuth P now_ms w)))
   \<and> ((truthy (getItem (localStorage w) TOKEN_KEY) \<and> truthy (getItem (localStorage w) USER_KEY))
        \<or> (localStorage w TOKEN_KEY = None \<and> localStorage w USER_KEY = None) \<longrightarrow>
        spec_all_or_nothing P now_ms (localStorage (loadStoredAuth P now_ms w)))
   \<and> (both_or_neither (localStorage w) \<longrightarrow>
        both_or_neither (localStorage (snd (auth_verifyOTP P net now_ms email otp w))))
   \<and> (\<forall>response. fst (auth_verifyOTP P net now_ms email otp w) = Inr response \<longrightarrow>
        localStorage (snd (auth_verifyOTP P net now_ms email otp w)) TOKEN_KEY \<noteq> None
        \<and> localStorage (snd (auth_verifyOTP P net now_ms email otp w)) USER_KEY \<noteq> None)"
proof -
  have "spec_all_or_nothing P now_ms (localStorage (logout P now_ms w))"
    by (simp add: spec_all_or_nothing_def logout_localStorage)
  moreover have "localStorage w TOKEN_KEY = None \<or> localStorage w USER_KEY = None \<longrightarrow>
        loadStoredAuth P now_ms w = w"
    by (auto simp add: loadStoredAuth_def Let_def getItem_def)
  moreover have "localStorage (logout P now_ms w) TOKEN_KEY = None"
    "localStorage (logout P now_ms w) USER_KEY = None"
    by (simp_all add: logout_localStorage)
  ultimately show ?thesis
    using auth_verifyOTP_success_stores_both [of P net now_ms email otp w]
      spec_all_or_nothing_loadStoredAuth [of w P now_ms]
    by (simp add: both_or_neither_logout both_or_neither_loadStoredAuth
        both_or_neither_auth_verifyOTP)
qed

lemma accepting_opaque_response:
  "fst (api_verifyOTP example_platform accepting_opaque ''user@example.com'' ''123456''
          anonymous_world)
     = Inr (JObj [(''access_token'', JStr ''opaque-session-token''), (''user'', example_user)])"
  by (simp add: api_verifyOTP_def api_postForm_def request_def Let_def request_try_def
      accepting_opaque_def json_response_def read_body_def resp_ok_def)

lemma accepting_opaque_login:
  "auth_verifyOTP example_platform accepting_opaque 0 ''user@example.com'' ''123456''
     anonymous_world
   = (Inr (JObj [(''access_token'', JStr ''opaque-session-token''), (''user'', example_user)]),
      (setAuthData example_platform 0 (JStr ''opaque-session-token'') example_user
         (snd (api_verifyOTP example_platform accepting_opaque ''user@example.com'' ''123456''
            anonymous_world)))
      \<lparr>sessionStorage := Map.empty\<rparr>)"
  using accepting_opaque_response
  by (simp add: auth_verifyOTP_def case_prod_beta Let_def example_user_def removeItem_def
      setAuthData_def setToken_def updateUI_def setupTokenRefresh_def api_verifyOTP_def
      api_postForm_def request_memory)
     (simp add: anonymous_world_def)

text \<open>
  C9, as the specification words it, fails: starting from an empty store, a
  passcode that the server accepts with a token that has no payload segment ends
  with credential and identity in the store and an expiry that
  \<^verbatim>\<open>isTokenExpired\<close> itself judges expired, which is neither a full session
  nor none.
\<close>

theorem verifyOTP_stores_expired_session:
  \<open>spec_all_or_nothing example_platform 0 (localStorage anonymous_world)
   \<and> fst (auth_verifyOTP example_platform accepting_opaque 0 ''user@example.com'' ''123456''
          anonymous_world)
       = Inr (JObj [(''access_token'', JStr ''opaque-session-token''), (''user'', example_user)])
   \<and> localStorage (snd (auth_verifyOTP example_platform accepting_opaque 0 ''user@example.com''
          ''123456'' anonymous_world)) TOKEN_KEY = Some ''opaque-session-token''
   \<and> localStorage (snd (auth_verifyOTP example_platform accepting_opaque 0 ''user@example.com''
          ''123456'' anonymous_world)) USER_KEY = Some ''{"email":"user@example.com"}''
   \<and> isTokenExpired example_platform 0 (snd (auth_verifyOTP example_platform accepting_opaque 0
          ''user@example.com'' ''123456'' anonymous_world))
   \<and> \<not> spec_all_or_nothing example_platform 0
        (localStorage (snd (auth_verifyOTP example_platform accepting_opaque 0 ''user@example.com''
          ''123456'' anonymous_world)))\<close>
proof -
  have pre: "spec_all_or_nothing example_platform 0 (localStorage anonymous_world)"
    by (simp add: spec_all_or_nothing_def anonymous_world_def)
  have undecodable: "atob example_platform (payload_segment ''opaque-session-token'') = None"
    by (simp add: payload_segment_examples example_platform_def example_atob_def)
  have store: \<open>localStorage (snd (auth_verifyOTP example_platform accepting_opaque 0
          ''user@example.com'' ''123456'' anonymous_world))
        = (localStorage anonymous_world)
            (USER_KEY \<mapsto> ''{"email":"user@example.com"}'',
             TOKEN_KEY \<mapsto> ''opaque-session-token'')\<close>
    by (simp add: accepting_opaque_login setAuthData_localStorage api_verifyOTP_localStorage)
       (simp add: to_str_def example_platform_def example_stringify_def example_user_def)
  have memory: "auth_token (snd (auth_verifyOTP example_platform accepting_opaque 0
          ''user@example.com'' ''123456'' anonymous_world)) = JStr ''opaque-session-token''"
    by (simp add: accepting_opaque_login setAuthData_def Let_def setToken_def updateUI_def
        setupTokenRefresh_def)
  have expired: "isTokenExpired example_platform 0 (snd (auth_verifyOTP example_platform
          accepting_opaque 0 ''user@example.com'' ''123456'' anonymous_world))"
    using memory undecodable by (rule isTokenExpired_not_decodable)
  have expired': "isTokenExpired example_platform 0
          (anonymous_world\<lparr>auth_token := JStr ''opaque-session-token''\<rparr>)"
    using undecodable by (simp add: isTokenExpired_not_decodable)
  have post: "\<not> spec_all_or_nothing example_platform 0
        (localStorage (snd (auth_verifyOTP example_platform accepting_opaque 0 ''user@example.com''
          ''123456'' anonymous_world)))"
    using expired' by (simp add: store spec_all_or_nothing_def keys_distinct getItem_def)
  from pre expired post show ?thesis
    by (simp add: store keys_distinct) (simp add: accepting_opaque_login)
qed

theorem session_keys_both_or_neither_witness:
  "both_or_neither (localStorage session_world)
   \<and> truthy (getItem (localStorage session_world) TOKEN_KEY)
   \<and> truthy (getItem (localStorage session_world) USER_KEY)
   \<and> both_or_neither (localStorage (logout example_platform 50000 session_world))
   \<and> both_or_neither (localStorage (loadStoredAuth example_platform 50000 session_world))
   \<and> spec_all_or_nothing example_platform 50000
        (localStorage (loadStoredAuth example_platform 50000 session_world))
   \<and> both_or_neither (localStorage anonymous_world)
   \<and> fst (auth_verifyOTP example_platform accepting_opaque 0 ''user@example.com'' ''123456''
          anonymous_world)
       = Inr (JObj [(''access_token'', JStr ''opaque-session-token''), (''user'', example_user)])
   \<and> both_or_neither (localStorage (snd (auth_verifyOTP example_platform accepting_opaque 0
          ''user@example.com'' ''123456'' anonymous_world)))
   \<and> localStorage (snd (auth_verifyOTP example_platform accepting_opaque 0
          ''user@example.com'' ''123456'' anonymous_world)) TOKEN_KEY \<noteq> None
   \<and> localStorage (snd (auth_verifyOTP example_platform accepting_opaque 0
          ''user@example.com'' ''123456'' anonymous_world)) USER_KEY \<noteq> None"
proof -
  have pre: "both_or_neither (localStorage anonymous_world)"
    by (simp add: both_or_neither_def anonymous_world_def)
  have stored: "both_or_neither (localStorage session_world)"
    "truthy (getItem (localStorage session_world) TOKEN_KEY)"
    "truthy (getItem (localStorage session_world) USER_KEY)"
    by (simp_all add: both_or_neither_def session_world_def getItem_def keys_distinct)
  have ok: "fst (auth_verifyOTP example_platform accepting_opaque 0 ''user@example.com''
          ''123456'' anonymous_world)
       = Inr (JObj [(''access_token'', JStr ''opaque-session-token''), (''user'', example_user)])"
    by (simp add: accepting_opaque_login)
  from session_keys_both_or_neither
    [of example_platform 0 anonymous_world accepting_opaque "''user@example.com''" "''123456''"]
    session_keys_both_or_neither
    [of example_platform 50000 session_world accepting_opaque "''user@example.com''" "''123456''"]
  show ?thesis
    using pre ok stored by simp
qed

end
